theory Spec2Isabelle
  imports Complex_Main
begin

section \<open>Documents, requests and responses\<close>

text \<open>
  The controllers of \<^verbatim>\<open>user.controller.js\<close> and \<^verbatim>\<open>guard.controller.js\<close> are
  modelled as functions from an environment (the schema methods and library calls whose
  code is outside the controllers), the database state and a request to an outcome and
  the database state afterwards. An outcome is either the exception the handler leaves to
  \<^verbatim>\<open>asyncHandler\<close> (\<open>Inl\<close>) or the response it sent (\<open>Inr\<close>).

  Every database call returns: connection failures and the hooks, validators and indexes
  that the schema files declare are outside the controllers and are not modelled. The text
  fields of a document, \<^verbatim>\<open>age\<close> among them, are String paths and \<^verbatim>\<open>workPercent\<close> is a
  Number path. What Mongoose does with a value that is not of the type of its schema path
  is a parameter of the environment.

  A collection is the list of its documents in storage order. A field that a document
  does not carry (never set, unset with \<^verbatim>\<open>$unset\<close>, or removed from a result by
  \<^verbatim>\<open>.select("-password -refreshToken")\<close> or a \<^verbatim>\<open>$project\<close> stage) is \<open>None\<close>.
\<close>

type_synonym objectId = nat
type_synonym token = string

text \<open>
  The values that the body parsers and the cookie parser put into a request: what JSON
  can express, and \<^verbatim>\<open>undefined\<close> for a property that is not there. A number is the
  real number it denotes.
\<close>

datatype jsvalue =
    Undefined
  | Null
  | Bool bool
  | Num real
  | Str string
  | Arr "jsvalue list"
  | Obj "(string \<times> jsvalue) list"

text \<open>The result of the conversion \<^verbatim>\<open>ToNumber\<close>.\<close>

datatype number = NaN | Finite real | PosInfinity | NegInfinity

record account =
  doc_id :: objectId
  userName :: string
  fullName :: string
  email :: string
  password :: "string option"
  avatar :: string
  refreshToken :: "token option"

record user = account +
  role :: string

record guard = account +
  residence :: string
  description :: string
  age :: string
  workHistory :: "string list"
  isApproved :: bool
  workPercent :: "real option"

record location =
  loc_id :: objectId
  loc_guard :: objectId
  loc_place :: string

record complain =
  complain_id :: objectId
  complain_text :: string
  complain_guard :: objectId

record appreciation =
  appreciation_id :: objectId
  appreciation_message :: string
  appreciation_guard :: objectId

text \<open>
  The database. \<open>idCounter\<close> stands for the ObjectId generator: the next id that
  \<^verbatim>\<open>Model.create\<close> or \<^verbatim>\<open>new mongoose.Types.ObjectId()\<close> hands out.
\<close>

record state =
  users :: "user list"
  guards :: "guard list"
  locations :: "location list"
  complains :: "complain list"
  appreciations :: "appreciation list"
  idCounter :: objectId

text \<open>
  \<^verbatim>\<open>req.body\<close>, with the properties the controllers read. A property that the body does
  not have is \<open>Undefined\<close>.
\<close>

record body =
  body_userName :: jsvalue
  body_fullName :: jsvalue
  body_email :: jsvalue
  body_password :: jsvalue
  body_role :: jsvalue
  body_residence :: jsvalue
  body_description :: jsvalue
  body_age :: jsvalue
  body_workHistory :: jsvalue
  body_refreshToken :: jsvalue
  body_complain :: jsvalue
  body_message :: jsvalue
  body_workPercent :: jsvalue

text \<open>
  The request. \<open>cookies_refreshToken\<close> is \<^verbatim>\<open>req.cookies?.refreshToken\<close>, \<open>Undefined\<close>
  without cookies. \<open>req_body\<close> is \<open>None\<close> when \<^verbatim>\<open>req.body\<close> is undefined, which is
  what a body parser that does not initialise it leaves for a request without a body.
  Route parameters are strings. \<open>files_avatar_path\<close> is
  \<^verbatim>\<open>req.files?.avatar?.[0]?.path\<close> and \<open>req_user\<close> is what the authentication middleware
  stored in \<^verbatim>\<open>req.user\<close>.
\<close>

record 'u request =
  cookies_refreshToken :: jsvalue
  req_body :: "body option"
  params_userName :: "string option"
  params_guardId :: "string option"
  files_avatar_path :: "string option"
  req_user :: "'u option"

record cookie =
  cookie_name :: string
  cookie_value :: string
  httpOnly :: bool
  secure :: bool
  sameSite :: string
  maxAge :: "nat option"

datatype data =
    NoData
  | UserDoc user
  | CurrentUser "user option"
  | GuardDoc guard
  | CurrentGuard "guard option"
  | GuardDocs "guard list"
  | Tokens token token
  | UserLogin user token token
  | GuardLogin guard token token
  | Deployments "location list"
  | Assigned "(location \<times> guard) list"
  | AppreciationDoc appreciation

datatype body_json = ApiResponse nat data string | StatusJson nat

record response =
  status :: nat
  json :: body_json
  cookies :: "cookie list"
  cleared :: "cookie list"

text \<open>
  What a handler can throw: the application's \<^verbatim>\<open>ApiError(statusCode, message)\<close>, or
  another JavaScript error, kept by its name.
\<close>

datatype exn = ApiError nat string | JsError string

type_synonym result = "(exn + response) \<times> state"

datatype parsed = SyntaxError | ParsedArray "string list" | ParsedOther

text \<open>
  The environment: the methods of the two Mongoose schemas and the library and language
  functions the controllers call. The schema files and the utilities are not part of the
  controllers, so they are parameters.
  \<^item> \<open>isPasswordCorrect\<close> gives \<open>None\<close> where the schema method throws.
  \<^item> \<open>jwt_verify\<close> gives the \<^verbatim>\<open>_id\<close> of the decoded payload, or \<open>None\<close> where
    \<^verbatim>\<open>jwt.verify\<close> throws.
  \<^item> \<open>castObjectId\<close> is Mongoose's cast of a route parameter to an ObjectId, \<open>None\<close>
    where the string is not a valid id.
  \<^item> \<open>schemaCastString\<close> and \<open>schemaCastNumber\<close> are Mongoose's casts of a value that
    is not a string (not a number) to a String (Number) path of a document, \<open>None\<close>
    where the cast fails; \<open>castForQuery\<close> is what a filter on a String path matches when
    its value is not a string, \<open>None\<close> where Mongoose rejects the filter.
  \<^item> \<open>toLowerCase\<close> and \<open>trim\<close> are the methods of \<^verbatim>\<open>String.prototype\<close>;
    \<open>ToString\<close> and \<open>StringToNumber\<close> are the conversions of the language.
\<close>

record env =
  user_generateAccessToken :: "user \<Rightarrow> token"
  user_generateRefreshToken :: "user \<Rightarrow> token"
  user_isPasswordCorrect :: "user \<Rightarrow> jsvalue \<Rightarrow> bool option"
  guard_generateAccessToken :: "guard \<Rightarrow> token"
  guard_generateRefreshToken :: "guard \<Rightarrow> token"
  guard_isPasswordCorrect :: "guard \<Rightarrow> jsvalue \<Rightarrow> bool option"
  hashPassword :: "string \<Rightarrow> string"
  default_isApproved :: bool
  default_workPercent :: "real option"
  schemaCastString :: "jsvalue \<Rightarrow> string option"
  schemaCastNumber :: "jsvalue \<Rightarrow> real option option"
  castForQuery :: "jsvalue \<Rightarrow> (string \<Rightarrow> bool) option"
  jwt_verify :: "token \<Rightarrow> objectId option"
  uploadOnCloudinary :: "string \<Rightarrow> string option"
  JSON_parse :: "string \<Rightarrow> parsed"
  castObjectId :: "string \<Rightarrow> objectId option"
  toLowerCase :: "string \<Rightarrow> string"
  trim :: "string \<Rightarrow> string"
  ToString :: "jsvalue \<Rightarrow> string"
  StringToNumber :: "string \<Rightarrow> number"

section \<open>JavaScript and Mongoose helpers\<close>

text \<open>
  Truthiness: \<^verbatim>\<open>undefined\<close>, \<^verbatim>\<open>null\<close>, \<^verbatim>\<open>false\<close>, \<^verbatim>\<open>0\<close> and the empty string are
  falsy, every other value (every array and object too) is truthy.
\<close>

fun truthy :: "jsvalue \<Rightarrow> bool" where
  "truthy Undefined = False"
| "truthy Null = False"
| "truthy (Bool b) = b"
| "truthy (Num x) = (x \<noteq> 0)"
| "truthy (Str a) = (a \<noteq> [])"
| "truthy (Arr xs) = True"
| "truthy (Obj ps) = True"

text \<open>The value of a non-empty string, for the branches behind a \<^verbatim>\<open>if (!x) throw\<close>.\<close>

definition present :: "string option \<Rightarrow> string option" where
  "present v = (case v of None \<Rightarrow> None | Some s \<Rightarrow> if s = [] then None else Some s)"

text \<open>
  \<^verbatim>\<open>req.cookies?.refreshToken || req.body.refreshToken\<close>: the body is read only when the
  cookie value is falsy, and reading a property of an undefined body is a TypeError.
\<close>

definition incomingRefreshToken :: "'u request \<Rightarrow> exn + jsvalue" where
  "incomingRefreshToken req =
     (if truthy (cookies_refreshToken req) then Inr (cookies_refreshToken req)
      else case req_body req of
             None \<Rightarrow> Inl (JsError ''TypeError'')
           | Some b \<Rightarrow> Inr (body_refreshToken b))"

text \<open>\<^verbatim>\<open>ToNumber\<close>, and the comparisons \<^verbatim>\<open>v < x\<close> and \<^verbatim>\<open>v > x\<close> with a number \<open>x\<close>.\<close>

fun ToNumber :: "env \<Rightarrow> jsvalue \<Rightarrow> number" where
  "ToNumber env Undefined = NaN"
| "ToNumber env Null = Finite 0"
| "ToNumber env (Bool b) = Finite (if b then 1 else 0)"
| "ToNumber env (Num x) = Finite x"
| "ToNumber env (Str a) = StringToNumber env a"
| "ToNumber env (Arr xs) = StringToNumber env (ToString env (Arr xs))"
| "ToNumber env (Obj ps) = StringToNumber env (ToString env (Obj ps))"

fun lessThan_js :: "number \<Rightarrow> real \<Rightarrow> bool" where
  "lessThan_js (Finite a) x = (a < x)"
| "lessThan_js NegInfinity x = True"
| "lessThan_js PosInfinity x = False"
| "lessThan_js NaN x = False"

fun greaterThan_js :: "number \<Rightarrow> real \<Rightarrow> bool" where
  "greaterThan_js (Finite a) x = (a > x)"
| "greaterThan_js PosInfinity x = True"
| "greaterThan_js NegInfinity x = False"
| "greaterThan_js NaN x = False"

text \<open>\<^verbatim>\<open>String(v)\<close>, as \<^verbatim>\<open>JSON.parse\<close> applies it to its argument.\<close>

fun toString_js :: "env \<Rightarrow> jsvalue \<Rightarrow> string" where
  "toString_js env (Str a) = a"
| "toString_js env v = ToString env v"

text \<open>
  Mongoose's cast of a value to a String path and to a Number path of a document. A
  string (a number) is kept, \<^verbatim>\<open>null\<close> is kept for a Number path, and the rest is the
  schema's.
\<close>

fun castString :: "env \<Rightarrow> jsvalue \<Rightarrow> string option" where
  "castString env (Str a) = Some a"
| "castString env v = schemaCastString env v"

fun castNumber :: "env \<Rightarrow> jsvalue \<Rightarrow> real option option" where
  "castNumber env (Num x) = Some (Some x)"
| "castNumber env Null = Some None"
| "castNumber env v = schemaCastNumber env v"

text \<open>
  What the filter \<^verbatim>\<open>{path: v}\<close> on a String path matches: a string matches the equal
  string; \<^verbatim>\<open>undefined\<close> and \<^verbatim>\<open>null\<close> match a document without the field, and every
  stored document has the field; the rest is the library's.
\<close>

fun stringFilter :: "env \<Rightarrow> jsvalue \<Rightarrow> (string \<Rightarrow> bool) option" where
  "stringFilter env (Str a) = Some (\<lambda>x. x = a)"
| "stringFilter env Undefined = Some (\<lambda>x. False)"
| "stringFilter env Null = Some (\<lambda>x. False)"
| "stringFilter env v = castForQuery env v"

text \<open>\<^verbatim>\<open>Model.findOne({ $or: [{ userName }, { email }] })\<close>\<close>

definition findByNameOrEmail ::
  "env \<Rightarrow> jsvalue \<Rightarrow> jsvalue \<Rightarrow> 'a account_scheme list \<Rightarrow> exn + 'a account_scheme option" where
  "findByNameOrEmail env name mail docs =
     (case stringFilter env name of
        None \<Rightarrow> Inl (JsError ''CastError'')
      | Some p \<Rightarrow>
          (case stringFilter env mail of
             None \<Rightarrow> Inl (JsError ''CastError'')
           | Some q \<Rightarrow> Inr (find (\<lambda>d. p (userName d) \<or> q (email d)) docs)))"

definition findById :: "'a account_scheme list \<Rightarrow> objectId \<Rightarrow> 'a account_scheme option" where
  "findById docs i = find (\<lambda>d. doc_id d = i) docs"

definition findOne :: "('a \<Rightarrow> bool) \<Rightarrow> 'a list \<Rightarrow> 'a option" where
  "findOne p docs = find p docs"

text \<open>
  An update of the document with a given \<^verbatim>\<open>_id\<close>: the first document with that id is
  changed, as \<^verbatim>\<open>updateOne\<close> does. \<^verbatim>\<open>doc.save()\<close> writes the modified paths of the
  document, so it is the update of those fields.
\<close>

fun updateById ::
  "('a account_scheme \<Rightarrow> 'a account_scheme) \<Rightarrow> objectId \<Rightarrow> 'a account_scheme list
   \<Rightarrow> 'a account_scheme list" where
  "updateById f i [] = []"
| "updateById f i (d # ds) = (if doc_id d = i then f d # ds else d # updateById f i ds)"

definition select_minus :: "'a account_scheme \<Rightarrow> 'a account_scheme" where
  "select_minus d = d\<lparr>password := None, refreshToken := None\<rparr>"

definition throw :: "nat \<Rightarrow> string \<Rightarrow> state \<Rightarrow> result" where
  "throw c m s = (Inl (ApiError c m), s)"

definition raise :: "string \<Rightarrow> state \<Rightarrow> result" where
  "raise n s = (Inl (JsError n), s)"

definition respond :: "nat \<Rightarrow> data \<Rightarrow> string \<Rightarrow> state \<Rightarrow> result" where
  "respond c d m s =
     (Inr \<lparr>status = c, json = ApiResponse c d m, cookies = [], cleared = []\<rparr>, s)"

definition refreshCookie :: "token \<Rightarrow> cookie" where
  "refreshCookie t =
     \<lparr>cookie_name = ''refreshToken'', cookie_value = t, httpOnly = True, secure = True,
      sameSite = ''None'', maxAge = Some (230 * 24 * 60 * 60 * 1000)\<rparr>"

definition accessCookie :: "token \<Rightarrow> cookie" where
  "accessCookie t =
     \<lparr>cookie_name = ''accessToken'', cookie_value = t, httpOnly = True, secure = True,
      sameSite = ''None'', maxAge = None\<rparr>"


section \<open>user.controller.js\<close>

definition user_generateAccessAndRefreshTokens ::
  "env \<Rightarrow> state \<Rightarrow> objectId \<Rightarrow> (exn + token \<times> token) \<times> state" where
  "user_generateAccessAndRefreshTokens env s userId =
     (case findById (users s) userId of
        None \<Rightarrow> (Inl (ApiError 404 ''User not found''), s)
      | Some u \<Rightarrow>
          let accessToken = user_generateAccessToken env u;
              newRefreshToken = user_generateRefreshToken env u
          in (Inr (accessToken, newRefreshToken),
              s\<lparr>users :=
                  updateById (\<lambda>d. d\<lparr>refreshToken := Some newRefreshToken\<rparr>) (doc_id u)
                    (users s)\<rparr>))"

text \<open>
  \<^verbatim>\<open>User.create\<close> of \<^verbatim>\<open>registerUser\<close>. The argument is built first:
  \<^verbatim>\<open>userName.toLowerCase()\<close> is a TypeError unless \<^verbatim>\<open>userName\<close> is a string. The other
  fields are cast to their String paths, and a failed cast is a ValidationError.
\<close>

definition createUser :: "env \<Rightarrow> state \<Rightarrow> body \<Rightarrow> string \<Rightarrow> exn + user" where
  "createUser env s b url =
     (case body_userName b of
        Str name \<Rightarrow>
          (case castString env (body_fullName b) of
             None \<Rightarrow> Inl (JsError ''ValidationError'')
           | Some full \<Rightarrow>
          (case castString env (body_email b) of
             None \<Rightarrow> Inl (JsError ''ValidationError'')
           | Some mail \<Rightarrow>
          (case castString env (body_password b) of
             None \<Rightarrow> Inl (JsError ''ValidationError'')
           | Some pass \<Rightarrow>
          (case castString env (case body_role b of Undefined \<Rightarrow> Str ''user'' | r \<Rightarrow> r) of
             None \<Rightarrow> Inl (JsError ''ValidationError'')
           | Some r \<Rightarrow>
               Inr \<lparr>doc_id = idCounter s, userName = toLowerCase env name, fullName = full,
                    email = mail, password = Some (hashPassword env pass), avatar = url,
                    refreshToken = None, role = r\<rparr>))))
      | _ \<Rightarrow> Inl (JsError ''TypeError''))"

definition registerUser :: "env \<Rightarrow> state \<Rightarrow> user request \<Rightarrow> result" where
  "registerUser env s req =
     (case req_body req of
        None \<Rightarrow> raise ''TypeError'' s
      | Some b \<Rightarrow>
          if \<not> truthy (body_userName b) \<or> \<not> truthy (body_fullName b) \<or>
             \<not> truthy (body_email b) \<or> \<not> truthy (body_password b)
          then throw 400 ''All fields are required'' s
          else
            (case findByNameOrEmail env (body_userName b) (body_email b) (users s) of
               Inl e \<Rightarrow> (Inl e, s)
             | Inr (Some existingUser) \<Rightarrow> throw 409 ''User already exists'' s
             | Inr None \<Rightarrow>
                (case present (files_avatar_path req) of
                   None \<Rightarrow> throw 400 ''Avatar image is required'' s
                 | Some avatarLocalPath \<Rightarrow>
                     (case uploadOnCloudinary env avatarLocalPath of
                        None \<Rightarrow> throw 500 ''Failed to upload avatar'' s
                      | Some url \<Rightarrow>
                          (case createUser env s b url of
                             Inl e \<Rightarrow> (Inl e, s)
                           | Inr u \<Rightarrow>
                               let s' = s\<lparr>users := users s @ [u],
                                          idCounter := Suc (idCounter s)\<rparr>
                               in (case findById (users s') (doc_id u) of
                                     None \<Rightarrow> throw 500 ''User registration failed'' s'
                                   | Some createdUser \<Rightarrow>
                                       (Inr \<lparr>status = 201,
                                             json = ApiResponse 201
                                                      (UserDoc (select_minus createdUser))
                                                      ''User registered successfully'',
                                             cookies = [], cleared = []\<rparr>, s')))))))"

definition loginUser :: "env \<Rightarrow> state \<Rightarrow> user request \<Rightarrow> result" where
  "loginUser env s req =
     (case req_body req of
        None \<Rightarrow> raise ''TypeError'' s
      | Some b \<Rightarrow>
          if \<not> truthy (body_email b) \<and> \<not> truthy (body_userName b)
          then throw 400 ''Provide either username or email'' s
          else
            (case findByNameOrEmail env (body_userName b) (body_email b) (users s) of
               Inl e \<Rightarrow> (Inl e, s)
             | Inr None \<Rightarrow> throw 404 ''User not found'' s
             | Inr (Some u) \<Rightarrow>
                (case user_isPasswordCorrect env u (body_password b) of
                   None \<Rightarrow> raise ''Error'' s
                 | Some isMatch \<Rightarrow>
                     if \<not> isMatch then throw 401 ''Invalid credentials'' s
                     else
                       (case user_generateAccessAndRefreshTokens env s (doc_id u) of
                          (Inl e, s') \<Rightarrow> (Inl e, s')
                        | (Inr (accessToken, newRefreshToken), s') \<Rightarrow>
                            (Inr \<lparr>status = 200,
                                  json = ApiResponse 200
                                           (UserLogin u accessToken newRefreshToken)
                                           ''Login successful'',
                                  cookies = [refreshCookie newRefreshToken,
                                             accessCookie accessToken],
                                  cleared = []\<rparr>, s')))))"


text \<open>
  The body of the \<^verbatim>\<open>try\<close> block of \<^verbatim>\<open>getAccessToken\<close>, then the handler with its
  \<^verbatim>\<open>catch\<close>. \<^verbatim>\<open>jwt.verify\<close> throws on a token that is not a string, so a token that
  verifies is a string, and \<^verbatim>\<open>!==\<close> compares it with the stored one.
\<close>

definition user_getAccessToken_try :: "env \<Rightarrow> state \<Rightarrow> jsvalue \<Rightarrow> result" where
  "user_getAccessToken_try env s incoming =
     (case incoming of
        Str t \<Rightarrow>
          (case jwt_verify env t of
             None \<Rightarrow> raise ''JsonWebTokenError'' s
           | Some decoded_id \<Rightarrow>
               (case findById (users s) decoded_id of
                  None \<Rightarrow> throw 403 ''Invalid or expired refresh token'' s
                | Some u \<Rightarrow>
                    if Some t \<noteq> refreshToken u
                    then throw 403 ''Invalid or expired refresh token'' s
                    else
                      (case user_generateAccessAndRefreshTokens env s (doc_id u) of
                         (Inl e, s') \<Rightarrow> (Inl e, s')
                       | (Inr (accessToken, newRefreshToken), s') \<Rightarrow>
                           (Inr \<lparr>status = 200,
                                 json = ApiResponse 200 (Tokens accessToken newRefreshToken)
                                          ''Access token refreshed successfully'',
                                 cookies = [refreshCookie newRefreshToken,
                                            accessCookie accessToken],
                                 cleared = []\<rparr>, s'))))
      | _ \<Rightarrow> raise ''JsonWebTokenError'' s)"

definition user_getAccessToken :: "env \<Rightarrow> state \<Rightarrow> user request \<Rightarrow> result" where
  "user_getAccessToken env s req =
     (case incomingRefreshToken req of
        Inl e \<Rightarrow> (Inl e, s)
      | Inr incoming \<Rightarrow>
          if \<not> truthy incoming then throw 401 ''Unauthorized request'' s
          else
            (case user_getAccessToken_try env s incoming of
               (Inl error, s') \<Rightarrow> throw 401 ''Invalid refresh token'' s'
             | (Inr res, s') \<Rightarrow> (Inr res, s')))"


definition user_checkRefreshToken :: "env \<Rightarrow> state \<Rightarrow> user request \<Rightarrow> result" where
  "user_checkRefreshToken env s req =
     (case incomingRefreshToken req of
        Inl e \<Rightarrow> (Inl e, s)
      | Inr incoming \<Rightarrow>
          let code = (if truthy incoming then 200 else 401)
          in (Inr \<lparr>status = code, json = StatusJson code, cookies = [], cleared = []\<rparr>, s))"

text \<open>
  \<^verbatim>\<open>authoriseGuard\<close> replaces a route parameter that is not a valid ObjectId by a newly
  generated one (\<open>idCounter\<close> is the generator), looks the guard up, sets
  \<^verbatim>\<open>isApproved = false\<close>, saves, and records the complaint. The guard is saved before
  \<^verbatim>\<open>Complain.create\<close> casts the complaint text.
\<close>

definition authoriseGuard :: "env \<Rightarrow> state \<Rightarrow> user request \<Rightarrow> result" where
  "authoriseGuard env s req =
     (case req_body req of
        None \<Rightarrow> raise ''TypeError'' s
      | Some b \<Rightarrow>
          if \<not> truthy (body_complain b) then throw 400 ''You must provide feedback'' s
          else
            (case present (params_guardId req) of
               None \<Rightarrow> throw 400 ''Guard ID is missing'' s
             | Some param \<Rightarrow>
                let (guardId, s1) =
                      (case castObjectId env param of
                         Some i \<Rightarrow> (i, s)
                       | None \<Rightarrow> (idCounter s, s\<lparr>idCounter := Suc (idCounter s)\<rparr>))
                in (case findById (guards s1) guardId of
                      None \<Rightarrow> throw 404 ''Guard not found'' s1
                    | Some g \<Rightarrow>
                        let g' = g\<lparr>isApproved := False\<rparr>;
                            s2 = s1\<lparr>guards :=
                                     updateById (\<lambda>d. d\<lparr>isApproved := False\<rparr>) (doc_id g)
                                       (guards s1)\<rparr>
                        in (case castString env (body_complain b) of
                              None \<Rightarrow> raise ''ValidationError'' s2
                            | Some text \<Rightarrow>
                                let comp = \<lparr>complain_id = idCounter s2, complain_text = text,
                                            complain_guard = guardId\<rparr>;
                                    s3 = s2\<lparr>complains := complains s2 @ [comp],
                                            idCounter := Suc (idCounter s2)\<rparr>
                                in respond 200 (GuardDoc g')
                                     ''Guard authorisation requested successfully'' s3))))"

definition getUser :: "env \<Rightarrow> state \<Rightarrow> user request \<Rightarrow> result" where
  "getUser env s req =
     (case present (params_userName req) of
        None \<Rightarrow> throw 400 ''Username is required'' s
      | Some name \<Rightarrow>
          (case findOne (\<lambda>u. userName u = trim env name) (users s) of
             None \<Rightarrow> throw 404 ''User not found'' s
           | Some u \<Rightarrow> respond 200 (UserDoc (select_minus u)) ''User retrieved successfully'' s))"


section \<open>guard.controller.js\<close>

definition guard_generateAccessAndRefreshTokens ::
  "env \<Rightarrow> state \<Rightarrow> objectId \<Rightarrow> (exn + token \<times> token) \<times> state" where
  "guard_generateAccessAndRefreshTokens env s guardId =
     (case findById (guards s) guardId of
        None \<Rightarrow> (Inl (ApiError 404 ''Guard not found''), s)
      | Some g \<Rightarrow>
          let accessToken = guard_generateAccessToken env g;
              newRefreshToken = guard_generateRefreshToken env g
          in (Inr (accessToken, newRefreshToken),
              s\<lparr>guards :=
                  updateById (\<lambda>d. d\<lparr>refreshToken := Some newRefreshToken\<rparr>) (doc_id g)
                    (guards s)\<rparr>))"

text \<open>
  The \<^verbatim>\<open>try\<close> block around \<^verbatim>\<open>JSON.parse(workHistory)\<close>: a syntax error, or the plain
  \<^verbatim>\<open>Error\<close> thrown for a value that is not an array.
\<close>

definition parseWorkHistory_try :: "env \<Rightarrow> jsvalue \<Rightarrow> exn + string list" where
  "parseWorkHistory_try env w =
     (case JSON_parse env (toString_js env w) of
        SyntaxError \<Rightarrow> Inl (JsError ''SyntaxError'')
      | ParsedOther \<Rightarrow> Inl (JsError ''Error'')
      | ParsedArray xs \<Rightarrow> Inr xs)"

text \<open>
  \<^verbatim>\<open>Guard.create\<close> of \<^verbatim>\<open>registerGuard\<close>, as \<open>createUser\<close>: a TypeError unless
  \<^verbatim>\<open>userName\<close> is a string, then the casts of the other fields.
\<close>

definition createGuard :: "env \<Rightarrow> state \<Rightarrow> body \<Rightarrow> string \<Rightarrow> string list \<Rightarrow> exn + guard" where
  "createGuard env s b url parsedWorkHistory =
     (case body_userName b of
        Str name \<Rightarrow>
          (case castString env (body_fullName b) of
             None \<Rightarrow> Inl (JsError ''ValidationError'')
           | Some full \<Rightarrow>
          (case castString env (body_email b) of
             None \<Rightarrow> Inl (JsError ''ValidationError'')
           | Some mail \<Rightarrow>
          (case castString env (body_password b) of
             None \<Rightarrow> Inl (JsError ''ValidationError'')
           | Some pass \<Rightarrow>
          (case castString env (body_residence b) of
             None \<Rightarrow> Inl (JsError ''ValidationError'')
           | Some res \<Rightarrow>
          (case castString env (body_description b) of
             None \<Rightarrow> Inl (JsError ''ValidationError'')
           | Some desc \<Rightarrow>
          (case castString env (body_age b) of
             None \<Rightarrow> Inl (JsError ''ValidationError'')
           | Some years \<Rightarrow>
               Inr \<lparr>doc_id = idCounter s, userName = toLowerCase env name, fullName = full,
                    email = mail, password = Some (hashPassword env pass), avatar = url,
                    refreshToken = None, residence = res, description = desc, age = years,
                    workHistory = parsedWorkHistory,
                    isApproved = default_isApproved env,
                    workPercent = default_workPercent env\<rparr>))))))
      | _ \<Rightarrow> Inl (JsError ''TypeError''))"

definition registerGuard :: "env \<Rightarrow> state \<Rightarrow> guard request \<Rightarrow> result" where
  "registerGuard env s req =
     (case req_body req of
        None \<Rightarrow> raise ''TypeError'' s
      | Some b \<Rightarrow>
          if \<not> truthy (body_userName b) \<or> \<not> truthy (body_fullName b) \<or>
             \<not> truthy (body_email b) \<or> \<not> truthy (body_password b) \<or>
             \<not> truthy (body_residence b) \<or> \<not> truthy (body_description b) \<or>
             \<not> truthy (body_age b)
          then throw 400 ''All fields are required'' s
          else
            (case findByNameOrEmail env (body_userName b) (body_email b) (guards s) of
               Inl e \<Rightarrow> (Inl e, s)
             | Inr (Some existingGuard) \<Rightarrow> throw 409 ''Guard already exists'' s
             | Inr None \<Rightarrow>
                 (case present (files_avatar_path req) of
                    None \<Rightarrow> throw 400 ''Avatar image is required'' s
                  | Some avatarLocalPath \<Rightarrow>
                      (case uploadOnCloudinary env avatarLocalPath of
                         None \<Rightarrow> throw 500 ''Failed to upload avatar'' s
                       | Some url \<Rightarrow>
                           (case (if truthy (body_workHistory b)
                                  then parseWorkHistory_try env (body_workHistory b)
                                  else Inr []) of
                              Inl error \<Rightarrow>
                                throw 400 ''Invalid workHistory format. Must be a JSON array.'' s
                            | Inr parsedWorkHistory \<Rightarrow>
                                (case createGuard env s b url parsedWorkHistory of
                                   Inl e \<Rightarrow> (Inl e, s)
                                 | Inr g \<Rightarrow>
                                     let s' = s\<lparr>guards := guards s @ [g],
                                                idCounter := Suc (idCounter s)\<rparr>
                                     in (case findById (guards s') (doc_id g) of
                                           None \<Rightarrow> throw 500 ''Guard registration failed'' s'
                                         | Some createdGuard \<Rightarrow>
                                             (Inr \<lparr>status = 201,
                                                   json = ApiResponse 201
                                                            (GuardDoc (select_minus createdGuard))
                                                            ''Guard registered successfully'',
                                                   cookies = [], cleared = []\<rparr>, s'))))))))"

definition loginGuard :: "env \<Rightarrow> state \<Rightarrow> guard request \<Rightarrow> result" where
  "loginGuard env s req =
     (case req_body req of
        None \<Rightarrow> raise ''TypeError'' s
      | Some b \<Rightarrow>
          if \<not> truthy (body_email b) \<and> \<not> truthy (body_userName b)
          then throw 400 ''Provide either username or email'' s
          else
            (case findByNameOrEmail env (body_userName b) (body_email b) (guards s) of
               Inl e \<Rightarrow> (Inl e, s)
             | Inr None \<Rightarrow> throw 404 ''Guard not found'' s
             | Inr (Some g) \<Rightarrow>
                 (case guard_isPasswordCorrect env g (body_password b) of
                    None \<Rightarrow> raise ''Error'' s
                  | Some isMatch \<Rightarrow>
                      if \<not> isMatch then throw 401 ''Invalid credentials'' s
                      else
                        (case guard_generateAccessAndRefreshTokens env s (doc_id g) of
                           (Inl e, s') \<Rightarrow> (Inl e, s')
                         | (Inr (accessToken, newRefreshToken), s') \<Rightarrow>
                             (Inr \<lparr>status = 200,
                                   json = ApiResponse 200
                                            (GuardLogin g accessToken newRefreshToken)
                                            ''Login successful'',
                                   cookies = [refreshCookie newRefreshToken,
                                              accessCookie accessToken],
                                   cleared = []\<rparr>, s')))))"


definition guard_getAccessToken_try :: "env \<Rightarrow> state \<Rightarrow> jsvalue \<Rightarrow> result" where
  "guard_getAccessToken_try env s incoming =
     (case incoming of
        Str t \<Rightarrow>
          (case jwt_verify env t of
             None \<Rightarrow> raise ''JsonWebTokenError'' s
           | Some decoded_id \<Rightarrow>
               (case findById (guards s) decoded_id of
                  None \<Rightarrow> throw 403 ''Invalid or expired refresh token'' s
                | Some g \<Rightarrow>
                    if Some t \<noteq> refreshToken g
                    then throw 403 ''Invalid or expired refresh token'' s
                    else
                      (case guard_generateAccessAndRefreshTokens env s (doc_id g) of
                         (Inl e, s') \<Rightarrow> (Inl e, s')
                       | (Inr (accessToken, newRefreshToken), s') \<Rightarrow>
                           (Inr \<lparr>status = 200,
                                 json = ApiResponse 200 (Tokens accessToken newRefreshToken)
                                          ''Access token refreshed successfully'',
                                 cookies = [refreshCookie newRefreshToken,
                                            accessCookie accessToken],
                                 cleared = []\<rparr>, s'))))
      | _ \<Rightarrow> raise ''JsonWebTokenError'' s)"

definition guard_getAccessToken :: "env \<Rightarrow> state \<Rightarrow> guard request \<Rightarrow> result" where
  "guard_getAccessToken env s req =
     (case incomingRefreshToken req of
        Inl e \<Rightarrow> (Inl e, s)
      | Inr incoming \<Rightarrow>
          if \<not> truthy incoming then throw 401 ''Unauthorized request'' s
          else
            (case guard_getAccessToken_try env s incoming of
               (Inl error, s') \<Rightarrow> throw 401 ''Invalid refresh token'' s'
             | (Inr res, s') \<Rightarrow> (Inr res, s')))"


definition guard_checkRefreshToken :: "env \<Rightarrow> state \<Rightarrow> guard request \<Rightarrow> result" where
  "guard_checkRefreshToken env s req =
     (case incomingRefreshToken req of
        Inl e \<Rightarrow> (Inl e, s)
      | Inr incoming \<Rightarrow>
          let code = (if truthy incoming then 200 else 401)
          in (Inr \<lparr>status = code, json = StatusJson code, cookies = [], cleared = []\<rparr>, s))"

definition getGuard :: "env \<Rightarrow> state \<Rightarrow> guard request \<Rightarrow> result" where
  "getGuard env s req =
     (case present (params_userName req) of
        None \<Rightarrow> throw 400 ''Username is required'' s
      | Some name \<Rightarrow>
          (case findOne (\<lambda>g. userName g = trim env name) (guards s) of
             None \<Rightarrow> throw 404 ''Guard not found'' s
           | Some g \<Rightarrow> respond 200 (GuardDoc (select_minus g)) ''Guard retrieved successfully'' s))"

definition listAutherisedGuards :: "env \<Rightarrow> state \<Rightarrow> guard request \<Rightarrow> result" where
  "listAutherisedGuards env s req =
     (let authorisedGuards = map select_minus (filter isApproved (guards s))
      in if authorisedGuards = [] then throw 404 ''No unauthorised guards found'' s
         else respond 200 (GuardDocs authorisedGuards)
                ''Authorised guards retrieved successfully'' s)"

text \<open>
  The pipeline of \<^verbatim>\<open>listUnassignedGuards\<close>: \<^verbatim>\<open>$lookup\<close> of the locations whose
  \<^verbatim>\<open>guard\<close> is the guard's id, \<^verbatim>\<open>$match\<close> on an empty lookup, \<^verbatim>\<open>$project\<close>.
\<close>

definition listUnassignedGuards :: "env \<Rightarrow> state \<Rightarrow> guard request \<Rightarrow> result" where
  "listUnassignedGuards env s req =
     (let data =
            map select_minus
              (filter (\<lambda>g. filter (\<lambda>l. loc_guard l = doc_id g) (locations s) = []) (guards s))
      in if data = [] then throw 404 ''No unassigned guards found'' s
         else respond 200 (GuardDocs data) ''Unassigned guards retrieved successfully'' s)"

text \<open>
  The pipeline of \<^verbatim>\<open>listAuthorisedGuards\<close>, over the locations: \<^verbatim>\<open>$lookup\<close> of the
  guards, \<^verbatim>\<open>$unwind\<close> (one row per guard found, none for an empty lookup),
  \<^verbatim>\<open>$match\<close> on approval, \<^verbatim>\<open>$project\<close>.
\<close>

definition listAuthorisedGuards :: "env \<Rightarrow> state \<Rightarrow> guard request \<Rightarrow> result" where
  "listAuthorisedGuards env s req =
     (let unwound =
            concat (map (\<lambda>l. map (Pair l) (filter (\<lambda>g. doc_id g = loc_guard l) (guards s)))
                      (locations s));
          data = map (\<lambda>(l, g). (l, select_minus g)) (filter (\<lambda>(l, g). isApproved g) unwound)
      in if data = [] then throw 404 ''No authorised guards found'' s
         else respond 200 (Assigned data) ''Authorised guards retrieved successfully'' s)"


text \<open>
  \<^verbatim>\<open>updateWorkPercent\<close>. The test
  \<^verbatim>\<open>workPercent === undefined || workPercent < 0 || workPercent > 100\<close> compares after
  \<^verbatim>\<open>ToNumber\<close>, and a comparison with \<^verbatim>\<open>NaN\<close> is false. A value that passes is handed
  to \<^verbatim>\<open>findByIdAndUpdate\<close>, which casts it to the Number path: a failed cast is a
  CastError, and \<^verbatim>\<open>null\<close> is stored as it is.
\<close>

definition updateWorkPercent :: "env \<Rightarrow> state \<Rightarrow> guard request \<Rightarrow> result" where
  "updateWorkPercent env s req =
     (case req_user req of
        None \<Rightarrow> throw 404 ''Guard not found or not authenticated'' s
      | Some me \<Rightarrow>
          (case req_body req of
             None \<Rightarrow> raise ''TypeError'' s
           | Some b \<Rightarrow>
               if body_workPercent b = Undefined \<or>
                  lessThan_js (ToNumber env (body_workPercent b)) 0 \<or>
                  greaterThan_js (ToNumber env (body_workPercent b)) 100
               then throw 400 ''Invalid work percent value (must be between 0-100)'' s
               else
                 (case castNumber env (body_workPercent b) of
                    None \<Rightarrow> raise ''CastError'' s
                  | Some w \<Rightarrow>
                      let s' = s\<lparr>guards :=
                                  updateById (\<lambda>d. d\<lparr>workPercent := w\<rparr>) (doc_id me)
                                    (guards s)\<rparr>
                      in (case findById (guards s') (doc_id me) of
                            None \<Rightarrow> throw 500 ''Failed to update work percent'' s'
                          | Some updatedGuard \<Rightarrow>
                              respond 200 (GuardDoc (select_minus updatedGuard))
                                ''Work percent updated successfully'' s'))))"

section \<open>Observations on outcomes\<close>

text \<open>
  The password and refresh token fields of every account document embedded in a response
  body, in order.
\<close>

definition secrets_of :: "'a account_scheme \<Rightarrow> string option \<times> token option" where
  "secrets_of d = (password d, refreshToken d)"

fun data_secrets :: "data \<Rightarrow> (string option \<times> token option) list" where
  "data_secrets NoData = []"
| "data_secrets (UserDoc u) = [secrets_of u]"
| "data_secrets (CurrentUser None) = []"
| "data_secrets (CurrentUser (Some u)) = [secrets_of u]"
| "data_secrets (GuardDoc g) = [secrets_of g]"
| "data_secrets (CurrentGuard None) = []"
| "data_secrets (CurrentGuard (Some g)) = [secrets_of g]"
| "data_secrets (GuardDocs gs) = map secrets_of gs"
| "data_secrets (Tokens a r) = []"
| "data_secrets (UserLogin u a r) = [secrets_of u]"
| "data_secrets (GuardLogin g a r) = [secrets_of g]"
| "data_secrets (Deployments ls) = []"
| "data_secrets (Assigned rows) = map (\<lambda>(l, g). secrets_of g) rows"
| "data_secrets (AppreciationDoc a) = []"

fun body_secrets :: "body_json \<Rightarrow> (string option \<times> token option) list" where
  "body_secrets (ApiResponse c d m) = data_secrets d"
| "body_secrets (StatusJson c) = []"

text \<open>The secrets embedded in the response of an outcome; none when it is an exception.\<close>

definition response_secrets :: "result \<Rightarrow> (string option \<times> token option) list" where
  "response_secrets r = (case fst r of Inl e \<Rightarrow> [] | Inr res \<Rightarrow> body_secrets (json res))"

text \<open>The database with the password and refresh token of every account removed.\<close>

definition redact :: "state \<Rightarrow> state" where
  "redact s = s\<lparr>users := map select_minus (users s), guards := map select_minus (guards s)\<rparr>"



text \<open>The status code of the \<^verbatim>\<open>ApiError\<close> an outcome throws, if it throws one.\<close>

definition thrownStatus :: "result \<Rightarrow> nat option" where
  "thrownStatus r = (case fst r of Inl (ApiError c m) \<Rightarrow> Some c | _ \<Rightarrow> None)"

section \<open>Requests of the expected types\<close>

text \<open>A value that is a string or is absent, and one that is a number or is absent.\<close>

fun isText :: "jsvalue \<Rightarrow> bool" where
  "isText Undefined = True"
| "isText (Str a) = True"
| "isText v = False"

fun isNumberOrAbsent :: "jsvalue \<Rightarrow> bool" where
  "isNumberOrAbsent Undefined = True"
| "isNumberOrAbsent (Num x) = True"
| "isNumberOrAbsent v = False"






section \<open>A small database for concrete runs\<close>

text \<open>
  The string methods of the example environment, on ASCII text: \<open>ascii_toLowerCase\<close>
  lowers the letters A to Z and \<open>ascii_trim\<close> strips tab, line feed, vertical tab, form
  feed, carriage return and space from both ends.
\<close>

definition ascii_lowerChar :: "char \<Rightarrow> char" where
  "ascii_lowerChar c =
     (if 65 \<le> (of_char c :: nat) \<and> (of_char c :: nat) \<le> 90
      then char_of ((of_char c :: nat) + 32) else c)"

definition ascii_toLowerCase :: "string \<Rightarrow> string" where
  "ascii_toLowerCase a = map ascii_lowerChar a"

definition ascii_isWhiteSpace :: "char \<Rightarrow> bool" where
  "ascii_isWhiteSpace c = ((of_char c :: nat) \<in> {9, 10, 11, 12, 13, 32})"

definition ascii_trim :: "string \<Rightarrow> string" where
  "ascii_trim a = rev (dropWhile ascii_isWhiteSpace (rev (dropWhile ascii_isWhiteSpace a)))"

definition example_passwordCheck :: "'a account_scheme \<Rightarrow> jsvalue \<Rightarrow> bool option" where
  "example_passwordCheck d v =
     (case v of Str x \<Rightarrow> Some (password d = Some (''hash:'' @ x)) | _ \<Rightarrow> None)"

definition example_env :: env where
  "example_env =
     \<lparr>user_generateAccessToken = (\<lambda>u. ''access-'' @ userName u),
      user_generateRefreshToken = (\<lambda>u. ''refresh-'' @ userName u),
      user_isPasswordCorrect = example_passwordCheck,
      guard_generateAccessToken = (\<lambda>g. ''access-'' @ userName g),
      guard_generateRefreshToken = (\<lambda>g. ''refresh-'' @ userName g),
      guard_isPasswordCorrect = example_passwordCheck,
      hashPassword = (\<lambda>p. ''hash:'' @ p),
      default_isApproved = False,
      default_workPercent = Some 0,
      schemaCastString = (\<lambda>v. None),
      schemaCastNumber = (\<lambda>v. None),
      castForQuery = (\<lambda>v. None),
      jwt_verify = (\<lambda>t. if t = ''old-alice'' \<or> t = ''stale-alice'' then Some 1
                         else if t = ''old-bob'' \<or> t = ''stale-bob'' then Some 7 else None),
      uploadOnCloudinary = (\<lambda>p. Some (''https://cdn/'' @ p)),
      JSON_parse = (\<lambda>w. if w = ''[]'' then ParsedArray [] else SyntaxError),
      castObjectId = (\<lambda>p. if p = ''7'' then Some 7 else None),
      toLowerCase = ascii_toLowerCase,
      trim = ascii_trim,
      ToString = (\<lambda>v. ''[object Object]''),
      StringToNumber = (\<lambda>a. if a = [] then Finite 0 else NaN)\<rparr>"

definition alice :: user where
  "alice =
     \<lparr>doc_id = 1, userName = ''alice'', fullName = ''Alice A'', email = ''alice@example.com'',
      password = Some ''hash:wonderland'', avatar = ''https://cdn/a.png'',
      refreshToken = Some ''old-alice'', role = ''admin''\<rparr>"

definition bob :: guard where
  "bob =
     \<lparr>doc_id = 7, userName = ''bob'', fullName = ''Bob B'', email = ''bob@example.com'',
      password = Some ''hash:builder'', avatar = ''https://cdn/b.png'',
      refreshToken = Some ''old-bob'', residence = ''Ranchi'', description = ''night shift'',
      age = ''41'', workHistory = [], isApproved = False, workPercent = Some 10\<rparr>"

definition example_state :: state where
  "example_state =
     \<lparr>users = [alice], guards = [bob],
      locations = [\<lparr>loc_id = 3, loc_guard = 7, loc_place = ''Gate 2''\<rparr>],
      complains = [], appreciations = [], idCounter = 100\<rparr>"

text \<open>The body \<^verbatim>\<open>{}\<close>, and a request with that body and nothing else.\<close>

definition empty_body :: body where
  "empty_body =
     \<lparr>body_userName = Undefined, body_fullName = Undefined, body_email = Undefined,
      body_password = Undefined, body_role = Undefined, body_residence = Undefined,
      body_description = Undefined, body_age = Undefined, body_workHistory = Undefined,
      body_refreshToken = Undefined, body_complain = Undefined, body_message = Undefined,
      body_workPercent = Undefined\<rparr>"

definition empty_request :: "'u request" where
  "empty_request =
     \<lparr>cookies_refreshToken = Undefined, req_body = Some empty_body, params_userName = None,
      params_guardId = None, files_avatar_path = None, req_user = None\<rparr>"

text \<open>The same request when the body parser has left \<^verbatim>\<open>req.body\<close> undefined.\<close>

definition bodiless_request :: "'u request" where
  "bodiless_request = empty_request\<lparr>req_body := None\<rparr>"

definition carol_body :: body where
  "carol_body =
     empty_body\<lparr>body_userName := Str ''Carol'', body_fullName := Str ''Carol C'',
       body_email := Str ''carol@example.com'', body_password := Str ''pw''\<rparr>"

definition dave_body :: body where
  "dave_body =
     empty_body\<lparr>body_userName := Str ''Dave'', body_fullName := Str ''Dave D'',
       body_email := Str ''dave@example.com'', body_password := Str ''pw'',
       body_residence := Str ''Bokaro'', body_description := Str ''day shift'',
       body_age := Str ''35'', body_workHistory := Str ''[]''\<rparr>"

definition complaint_request :: "user request" where
  "complaint_request =
     empty_request\<lparr>req_body := Some (empty_body\<lparr>body_complain := Str ''asleep on duty''\<rparr>),
       params_guardId := Some ''7''\<rparr>"

text \<open>The example database after every password and refresh token has been replaced.\<close>

definition other_secrets_state :: state where
  "other_secrets_state =
     example_state
       \<lparr>users := [alice\<lparr>password := Some ''hash:looking-glass'', refreshToken := None\<rparr>],
        guards := [bob\<lparr>password := Some ''hash:fixit'', refreshToken := Some ''newer-bob''\<rparr>]\<rparr>"

section \<open>Token rotation\<close>

lemma findById_doc_id: "findById ds i = Some d \<Longrightarrow> doc_id d = i"
  by (auto simp: findById_def find_Some_iff)

lemma findById_updateById:
  "(\<And>d. doc_id (f d) = doc_id d) \<Longrightarrow>
   findById (updateById f i ds) i = map_option f (findById ds i)"
  by (induction ds) (auto simp: findById_def)

lemma user_tokens_Some:
  "findById (users s) i = Some u \<Longrightarrow>
   user_generateAccessAndRefreshTokens env s i =
     (Inr (user_generateAccessToken env u, user_generateRefreshToken env u),
      s\<lparr>users := updateById (\<lambda>d. d\<lparr>refreshToken := Some (user_generateRefreshToken env u)\<rparr>)
                   (doc_id u) (users s)\<rparr>)"
  by (simp add: user_generateAccessAndRefreshTokens_def Let_def)

lemma guard_tokens_Some:
  "findById (guards s) i = Some g \<Longrightarrow>
   guard_generateAccessAndRefreshTokens env s i =
     (Inr (guard_generateAccessToken env g, guard_generateRefreshToken env g),
      s\<lparr>guards := updateById (\<lambda>d. d\<lparr>refreshToken := Some (guard_generateRefreshToken env g)\<rparr>)
                   (doc_id g) (guards s)\<rparr>)"
  by (simp add: guard_generateAccessAndRefreshTokens_def Let_def)

lemma user_getAccessToken_ok:
  assumes "incomingRefreshToken req = Inr (Str t)" and "t \<noteq> []"
    and "jwt_verify env t = Some i"
    and "findById (users s) i = Some u"
    and "refreshToken u = Some t"
  shows "user_getAccessToken env s req =
     (Inr \<lparr>status = 200,
           json = ApiResponse 200
                    (Tokens (user_generateAccessToken env u) (user_generateRefreshToken env u))
                    ''Access token refreshed successfully'',
           cookies = [refreshCookie (user_generateRefreshToken env u),
                      accessCookie (user_generateAccessToken env u)],
           cleared = []\<rparr>,
      s\<lparr>users := updateById (\<lambda>d. d\<lparr>refreshToken := Some (user_generateRefreshToken env u)\<rparr>)
                   i (users s)\<rparr>)"
  using assms findById_doc_id[OF assms(4)]
  by (simp add: user_getAccessToken_def user_getAccessToken_try_def user_tokens_Some)

lemma guard_getAccessToken_ok:
  assumes "incomingRefreshToken req = Inr (Str t)" and "t \<noteq> []"
    and "jwt_verify env t = Some i"
    and "findById (guards s) i = Some g"
    and "refreshToken g = Some t"
  shows "guard_getAccessToken env s req =
     (Inr \<lparr>status = 200,
           json = ApiResponse 200
                    (Tokens (guard_generateAccessToken env g) (guard_generateRefreshToken env g))
                    ''Access token refreshed successfully'',
           cookies = [refreshCookie (guard_generateRefreshToken env g),
                      accessCookie (guard_generateAccessToken env g)],
           cleared = []\<rparr>,
      s\<lparr>guards := updateById (\<lambda>d. d\<lparr>refreshToken := Some (guard_generateRefreshToken env g)\<rparr>)
                   i (guards s)\<rparr>)"
  using assms findById_doc_id[OF assms(4)]
  by (simp add: guard_getAccessToken_def guard_getAccessToken_try_def guard_tokens_Some)

text \<open>
  Claim C1. A request to the token-refresh operation (user and guard variants) whose
  refresh token, taken from the cookie or else from the body, verifies and equals the
  refresh token stored on the account it names, is answered with status 200. The access
  and refresh tokens are the ones the account's \<^verbatim>\<open>generateAccessToken\<close> and
  \<^verbatim>\<open>generateRefreshToken\<close> methods produce at this request. The response sets two
  cookies, \<^verbatim>\<open>refreshToken\<close> with the new refresh token as its value and
  \<^verbatim>\<open>accessToken\<close> with the new access token as its value, both HTTP-only, and returns
  both tokens in the body; the new refresh token replaces the stored one.
\<close>

theorem getAccessToken_rotates_tokens:
  "((cookies_refreshToken ureq = Str t \<or>
     \<not> truthy (cookies_refreshToken ureq) \<and> req_body ureq = Some b \<and>
     body_refreshToken b = Str t) \<and> t \<noteq> [] \<and>
    jwt_verify env t = Some i \<and> findById (users s) i = Some u \<and> refreshToken u = Some t \<longrightarrow>
      user_getAccessToken env s ureq =
        (Inr \<lparr>status = 200,
              json = ApiResponse 200
                       (Tokens (user_generateAccessToken env u) (user_generateRefreshToken env u))
                       ''Access token refreshed successfully'',
              cookies =
                [\<lparr>cookie_name = ''refreshToken'',
                  cookie_value = user_generateRefreshToken env u,
                  httpOnly = True, secure = True, sameSite = ''None'',
                  maxAge = Some (230 * 24 * 60 * 60 * 1000)\<rparr>,
                 \<lparr>cookie_name = ''accessToken'',
                  cookie_value = user_generateAccessToken env u,
                  httpOnly = True, secure = True, sameSite = ''None'', maxAge = None\<rparr>],
              cleared = []\<rparr>,
         s\<lparr>users := updateById (\<lambda>d. d\<lparr>refreshToken := Some (user_generateRefreshToken env u)\<rparr>)
                      i (users s)\<rparr>) \<and>
      findById (users (snd (user_getAccessToken env s ureq))) i =
        Some (u\<lparr>refreshToken := Some (user_generateRefreshToken env u)\<rparr>)) \<and>
   ((cookies_refreshToken greq = Str t' \<or>
     \<not> truthy (cookies_refreshToken greq) \<and> req_body greq = Some b' \<and>
     body_refreshToken b' = Str t') \<and> t' \<noteq> [] \<and>
    jwt_verify env t' = Some j \<and> findById (guards s) j = Some g \<and> refreshToken g = Some t' \<longrightarrow>
      guard_getAccessToken env s greq =
        (Inr \<lparr>status = 200,
              json = ApiResponse 200
                       (Tokens (guard_generateAccessToken env g) (guard_generateRefreshToken env g))
                       ''Access token refreshed successfully'',
              cookies =
                [\<lparr>cookie_name = ''refreshToken'',
                  cookie_value = guard_generateRefreshToken env g,
                  httpOnly = True, secure = True, sameSite = ''None'',
                  maxAge = Some (230 * 24 * 60 * 60 * 1000)\<rparr>,
                 \<lparr>cookie_name = ''accessToken'',
                  cookie_value = guard_generateAccessToken env g,
                  httpOnly = True, secure = True, sameSite = ''None'', maxAge = None\<rparr>],
              cleared = []\<rparr>,
         s\<lparr>guards := updateById (\<lambda>d. d\<lparr>refreshToken := Some (guard_generateRefreshToken env g)\<rparr>)
                       j (guards s)\<rparr>) \<and>
      findById (guards (snd (guard_getAccessToken env s greq))) j =
        Some (g\<lparr>refreshToken := Some (guard_generateRefreshToken env g)\<rparr>))"
proof -
  have u: "incomingRefreshToken ureq = Inr (Str t)"
    if "cookies_refreshToken ureq = Str t \<or>
        \<not> truthy (cookies_refreshToken ureq) \<and> req_body ureq = Some b \<and>
        body_refreshToken b = Str t" and "t \<noteq> []"
    using that by (auto simp: incomingRefreshToken_def)
  have g: "incomingRefreshToken greq = Inr (Str t')"
    if "cookies_refreshToken greq = Str t' \<or>
        \<not> truthy (cookies_refreshToken greq) \<and> req_body greq = Some b' \<and>
        body_refreshToken b' = Str t'" and "t' \<noteq> []"
    using that by (auto simp: incomingRefreshToken_def)
  show ?thesis
    using u g
    by (auto simp: user_getAccessToken_ok guard_getAccessToken_ok findById_updateById
          refreshCookie_def accessCookie_def)
qed

theorem getAccessToken_rotates_tokens_witness:
  "cookies_refreshToken (empty_request\<lparr>cookies_refreshToken := Str ''old-alice''\<rparr>
      :: user request) = Str ''old-alice'' \<and>
   jwt_verify example_env ''old-alice'' = Some 1 \<and>
   findById (users example_state) 1 = Some alice \<and>
   refreshToken alice = Some ''old-alice'' \<and>
   fst (user_getAccessToken example_env example_state
          (empty_request\<lparr>cookies_refreshToken := Str ''old-alice''\<rparr>)) =
     Inr \<lparr>status = 200,
          json = ApiResponse 200 (Tokens ''access-alice'' ''refresh-alice'')
                   ''Access token refreshed successfully'',
          cookies =
            [\<lparr>cookie_name = ''refreshToken'', cookie_value = ''refresh-alice'',
              httpOnly = True, secure = True, sameSite = ''None'',
              maxAge = Some 19872000000\<rparr>,
             \<lparr>cookie_name = ''accessToken'', cookie_value = ''access-alice'',
              httpOnly = True, secure = True, sameSite = ''None'', maxAge = None\<rparr>],
          cleared = []\<rparr> \<and>
   findById (users (snd (user_getAccessToken example_env example_state
       (empty_request\<lparr>cookies_refreshToken := Str ''old-alice''\<rparr>)))) 1 =
     Some (alice\<lparr>refreshToken := Some ''refresh-alice''\<rparr>) \<and>
   \<not> truthy (cookies_refreshToken
     (empty_request\<lparr>req_body := Some (empty_body\<lparr>body_refreshToken := Str ''old-bob''\<rparr>)\<rparr>
        :: guard request)) \<and>
   body_refreshToken (empty_body\<lparr>body_refreshToken := Str ''old-bob''\<rparr>) = Str ''old-bob'' \<and>
   jwt_verify example_env ''old-bob'' = Some 7 \<and>
   findById (guards example_state) 7 = Some bob \<and>
   refreshToken bob = Some ''old-bob'' \<and>
   fst (guard_getAccessToken example_env example_state
          (empty_request\<lparr>req_body := Some (empty_body\<lparr>body_refreshToken := Str ''old-bob''\<rparr>)\<rparr>)) =
     Inr \<lparr>status = 200,
          json = ApiResponse 200 (Tokens ''access-bob'' ''refresh-bob'')
                   ''Access token refreshed successfully'',
          cookies =
            [\<lparr>cookie_name = ''refreshToken'', cookie_value = ''refresh-bob'',
              httpOnly = True, secure = True, sameSite = ''None'',
              maxAge = Some 19872000000\<rparr>,
             \<lparr>cookie_name = ''accessToken'', cookie_value = ''access-bob'',
              httpOnly = True, secure = True, sameSite = ''None'', maxAge = None\<rparr>],
          cleared = []\<rparr> \<and>
   findById (guards (snd (guard_getAccessToken example_env example_state
       (empty_request\<lparr>req_body := Some (empty_body\<lparr>body_refreshToken := Str ''old-bob''\<rparr>)\<rparr>)))) 7 =
     Some (bob\<lparr>refreshToken := Some ''refresh-bob''\<rparr>)"
  using getAccessToken_rotates_tokens
    [where env = example_env and s = example_state
       and ureq = "empty_request\<lparr>cookies_refreshToken := Str ''old-alice''\<rparr>"
       and t = "''old-alice''" and i = 1 and u = alice
       and greq = "empty_request\<lparr>req_body := Some (empty_body\<lparr>body_refreshToken := Str ''old-bob''\<rparr>)\<rparr>"
       and b' = "empty_body\<lparr>body_refreshToken := Str ''old-bob''\<rparr>"
       and t' = "''old-bob''" and j = 7 and g = bob]
  by (simp add: example_env_def example_state_def empty_request_def empty_body_def alice_def
        bob_def findById_def)

section \<open>Login\<close>

text \<open>
  With a user name and an email that are strings or absent, the lookup is the search for
  the first account whose user name or email is the given one.
\<close>

lemma findByNameOrEmail_text:
  "isText n \<Longrightarrow> isText m \<Longrightarrow>
   findByNameOrEmail env n m docs =
     Inr (findOne (\<lambda>d. Str (userName d) = n \<or> Str (email d) = m) docs)"
  by (cases n; cases m) (simp_all add: findByNameOrEmail_def findOne_def)

text \<open>
  Claim C3. A login request (\<^verbatim>\<open>loginUser\<close>, \<^verbatim>\<open>loginGuard\<close>) that gives a user name or
  an email, finds an account by it, and whose password the account's
  \<^verbatim>\<open>isPasswordCorrect\<close> rejects, fails with \<^verbatim>\<open>ApiError\<close> 401 "Invalid credentials":
  nothing is sent, so no token is issued and no cookie is set, and the database, with the
  stored refresh token, is as it was.
\<close>

theorem login_wrong_password_rejected:
  "(req_body ureq = Some b \<and> isText (body_userName b) \<and> isText (body_email b) \<and>
    (truthy (body_email b) \<or> truthy (body_userName b)) \<and>
    findOne (\<lambda>d. Str (userName d) = body_userName b \<or> Str (email d) = body_email b)
      (users s) = Some u \<and>
    user_isPasswordCorrect env u (body_password b) = Some False \<longrightarrow>
      loginUser env s ureq = (Inl (ApiError 401 ''Invalid credentials''), s)) \<and>
   (req_body greq = Some b' \<and> isText (body_userName b') \<and> isText (body_email b') \<and>
    (truthy (body_email b') \<or> truthy (body_userName b')) \<and>
    findOne (\<lambda>d. Str (userName d) = body_userName b' \<or> Str (email d) = body_email b')
      (guards s) = Some g \<and>
    guard_isPasswordCorrect env g (body_password b') = Some False \<longrightarrow>
      loginGuard env s greq = (Inl (ApiError 401 ''Invalid credentials''), s))"
  by (auto simp: loginUser_def loginGuard_def throw_def findByNameOrEmail_text)

theorem login_wrong_password_rejected_witness:
  "truthy (body_email (empty_body\<lparr>body_email := Str ''alice@example.com'',
       body_password := Str ''guess''\<rparr>)) \<and>
   findOne (\<lambda>d. Str (userName d) = Undefined \<or> Str (email d) = Str ''alice@example.com'')
     (users example_state) = Some alice \<and>
   user_isPasswordCorrect example_env alice (Str ''guess'') = Some False \<and>
   loginUser example_env example_state
     (empty_request\<lparr>req_body := Some (empty_body\<lparr>body_email := Str ''alice@example.com'',
        body_password := Str ''guess''\<rparr>)\<rparr>) =
     (Inl (ApiError 401 ''Invalid credentials''), example_state) \<and>
   truthy (body_userName (empty_body\<lparr>body_userName := Str ''bob'',
       body_password := Str ''guess''\<rparr>)) \<and>
   findOne (\<lambda>d. Str (userName d) = Str ''bob'' \<or> Str (email d) = Undefined)
     (guards example_state) = Some bob \<and>
   guard_isPasswordCorrect example_env bob (Str ''guess'') = Some False \<and>
   loginGuard example_env example_state
     (empty_request\<lparr>req_body := Some (empty_body\<lparr>body_userName := Str ''bob'',
        body_password := Str ''guess''\<rparr>)\<rparr>) =
     (Inl (ApiError 401 ''Invalid credentials''), example_state)"
  using login_wrong_password_rejected
    [where env = example_env and s = example_state and u = alice and g = bob
       and ureq = "empty_request\<lparr>req_body := Some (empty_body\<lparr>body_email :=
                     Str ''alice@example.com'', body_password := Str ''guess''\<rparr>)\<rparr>"
       and b = "empty_body\<lparr>body_email := Str ''alice@example.com'',
                  body_password := Str ''guess''\<rparr>"
       and greq = "empty_request\<lparr>req_body := Some (empty_body\<lparr>body_userName := Str ''bob'',
                     body_password := Str ''guess''\<rparr>)\<rparr>"
       and b' = "empty_body\<lparr>body_userName := Str ''bob'', body_password := Str ''guess''\<rparr>"]
  by (simp add: example_env_def example_state_def empty_request_def empty_body_def alice_def
        bob_def findOne_def example_passwordCheck_def)

lemma forget_updateById:
  "map (\<lambda>d. d\<lparr>refreshToken := None\<rparr>) (updateById (\<lambda>d. d\<lparr>refreshToken := v\<rparr>) i ds) =
   map (\<lambda>d. d\<lparr>refreshToken := None\<rparr>) ds"
  by (induction ds) auto

lemma user_tokens_frame:
  "user_generateAccessAndRefreshTokens env s i = (r, s') \<Longrightarrow>
   s' = s\<lparr>users := users s'\<rparr> \<and>
   map (\<lambda>d. d\<lparr>refreshToken := None\<rparr>) (users s') =
     map (\<lambda>d. d\<lparr>refreshToken := None\<rparr>) (users s)"
  by (auto simp: user_generateAccessAndRefreshTokens_def Let_def forget_updateById
        split: option.splits)

lemma guard_tokens_frame:
  "guard_generateAccessAndRefreshTokens env s i = (r, s') \<Longrightarrow>
   s' = s\<lparr>guards := guards s'\<rparr> \<and>
   map (\<lambda>d. d\<lparr>refreshToken := None\<rparr>) (guards s') =
     map (\<lambda>d. d\<lparr>refreshToken := None\<rparr>) (guards s)"
  by (auto simp: guard_generateAccessAndRefreshTokens_def Let_def forget_updateById
        split: option.splits)

lemma loginUser_frame:
  "snd (loginUser env s req) = s\<lparr>users := users (snd (loginUser env s req))\<rparr> \<and>
   map (\<lambda>d. d\<lparr>refreshToken := None\<rparr>) (users (snd (loginUser env s req))) =
     map (\<lambda>d. d\<lparr>refreshToken := None\<rparr>) (users s)"
  by (auto simp: loginUser_def throw_def raise_def
        split: option.splits prod.splits sum.splits dest: user_tokens_frame)

lemma loginGuard_frame:
  "snd (loginGuard env s req) = s\<lparr>guards := guards (snd (loginGuard env s req))\<rparr> \<and>
   map (\<lambda>d. d\<lparr>refreshToken := None\<rparr>) (guards (snd (loginGuard env s req))) =
     map (\<lambda>d. d\<lparr>refreshToken := None\<rparr>) (guards s)"
  by (auto simp: loginGuard_def throw_def raise_def
        split: option.splits prod.splits sum.splits dest: guard_tokens_frame)

text \<open>
  Claim C7. A successful login (\<^verbatim>\<open>loginUser\<close>, \<^verbatim>\<open>loginGuard\<close>) changes nothing in the
  database but refresh tokens of its own collection: the other collections are the same,
  and in its collection every document is the same in every field other than
  \<^verbatim>\<open>refreshToken\<close>.
\<close>

theorem login_modifies_only_refreshToken:
  "(fst (loginUser env s ureq) = Inr ures \<longrightarrow>
      snd (loginUser env s ureq) = s\<lparr>users := users (snd (loginUser env s ureq))\<rparr> \<and>
      map (\<lambda>d. d\<lparr>refreshToken := None\<rparr>) (users (snd (loginUser env s ureq))) =
        map (\<lambda>d. d\<lparr>refreshToken := None\<rparr>) (users s)) \<and>
   (fst (loginGuard env s greq) = Inr gres \<longrightarrow>
      snd (loginGuard env s greq) = s\<lparr>guards := guards (snd (loginGuard env s greq))\<rparr> \<and>
      map (\<lambda>d. d\<lparr>refreshToken := None\<rparr>) (guards (snd (loginGuard env s greq))) =
        map (\<lambda>d. d\<lparr>refreshToken := None\<rparr>) (guards s))"
  using loginUser_frame[of env s ureq] loginGuard_frame[of env s greq] by blast

theorem login_modifies_only_refreshToken_witness:
  "fst (loginUser example_env example_state
          (empty_request\<lparr>req_body := Some (empty_body\<lparr>body_email := Str ''alice@example.com'',
             body_password := Str ''wonderland''\<rparr>)\<rparr>)) =
     Inr \<lparr>status = 200,
          json = ApiResponse 200 (UserLogin alice ''access-alice'' ''refresh-alice'')
                   ''Login successful'',
          cookies = [refreshCookie ''refresh-alice'', accessCookie ''access-alice''],
          cleared = []\<rparr> \<and>
   map (\<lambda>d. d\<lparr>refreshToken := None\<rparr>)
     (users (snd (loginUser example_env example_state
        (empty_request\<lparr>req_body := Some (empty_body\<lparr>body_email := Str ''alice@example.com'',
           body_password := Str ''wonderland''\<rparr>)\<rparr>)))) =
     [alice\<lparr>refreshToken := None\<rparr>] \<and>
   fst (loginGuard example_env example_state
          (empty_request\<lparr>req_body := Some (empty_body\<lparr>body_userName := Str ''bob'',
             body_password := Str ''builder''\<rparr>)\<rparr>)) =
     Inr \<lparr>status = 200,
          json = ApiResponse 200 (GuardLogin bob ''access-bob'' ''refresh-bob'')
                   ''Login successful'',
          cookies = [refreshCookie ''refresh-bob'', accessCookie ''access-bob''],
          cleared = []\<rparr> \<and>
   map (\<lambda>d. d\<lparr>refreshToken := None\<rparr>)
     (guards (snd (loginGuard example_env example_state
        (empty_request\<lparr>req_body := Some (empty_body\<lparr>body_userName := Str ''bob'',
           body_password := Str ''builder''\<rparr>)\<rparr>)))) =
     [bob\<lparr>refreshToken := None\<rparr>]"
proof -
  let ?ureq = "empty_request\<lparr>req_body := Some (empty_body\<lparr>body_email :=
                 Str ''alice@example.com'', body_password := Str ''wonderland''\<rparr>)\<rparr>
               :: user request"
  let ?greq = "empty_request\<lparr>req_body := Some (empty_body\<lparr>body_userName := Str ''bob'',
                 body_password := Str ''builder''\<rparr>)\<rparr> :: guard request"
  let ?ures = "\<lparr>status = 200,
          json = ApiResponse 200 (UserLogin alice ''access-alice'' ''refresh-alice'')
                   ''Login successful'',
          cookies = [refreshCookie ''refresh-alice'', accessCookie ''access-alice''],
          cleared = []\<rparr>"
  let ?gres = "\<lparr>status = 200,
          json = ApiResponse 200 (GuardLogin bob ''access-bob'' ''refresh-bob'')
                   ''Login successful'',
          cookies = [refreshCookie ''refresh-bob'', accessCookie ''access-bob''],
          cleared = []\<rparr>"
  have u: "fst (loginUser example_env example_state ?ureq) = Inr ?ures"
    by (simp add: loginUser_def user_generateAccessAndRefreshTokens_def example_env_def
          example_state_def empty_request_def empty_body_def alice_def findByNameOrEmail_def
          findById_def example_passwordCheck_def Let_def)
  have g: "fst (loginGuard example_env example_state ?greq) = Inr ?gres"
    by (simp add: loginGuard_def guard_generateAccessAndRefreshTokens_def example_env_def
          example_state_def empty_request_def empty_body_def bob_def findByNameOrEmail_def
          findById_def example_passwordCheck_def Let_def)
  show ?thesis
    using u g
      login_modifies_only_refreshToken
        [where env = example_env and s = example_state and ureq = ?ureq and ures = ?ures
           and greq = ?greq and gres = ?gres]
    by (simp add: example_state_def)
qed

section \<open>Token refresh and its failures\<close>

lemma user_getAccessToken_failure:
  "incomingRefreshToken req = Inr v \<Longrightarrow> truthy v \<Longrightarrow>
   fst (user_getAccessToken env s req) = Inl e \<Longrightarrow> e = ApiError 401 ''Invalid refresh token''"
  by (auto simp: user_getAccessToken_def throw_def split: prod.splits sum.splits)

lemma guard_getAccessToken_failure:
  "incomingRefreshToken req = Inr v \<Longrightarrow> truthy v \<Longrightarrow>
   fst (guard_getAccessToken env s req) = Inl e \<Longrightarrow> e = ApiError 401 ''Invalid refresh token''"
  by (auto simp: guard_getAccessToken_def throw_def split: prod.splits sum.splits)

lemma user_getAccessToken_mismatch:
  assumes "incomingRefreshToken req = Inr (Str t)" and "t \<noteq> []"
    and "jwt_verify env t = Some i" and "findById (users s) i = Some u"
    and "refreshToken u \<noteq> Some t"
  shows "user_getAccessToken_try env s (Str t) =
           (Inl (ApiError 403 ''Invalid or expired refresh token''), s) \<and>
         user_getAccessToken env s req = (Inl (ApiError 401 ''Invalid refresh token''), s)"
  using assms by (auto simp: user_getAccessToken_def user_getAccessToken_try_def throw_def)

lemma guard_getAccessToken_mismatch:
  assumes "incomingRefreshToken req = Inr (Str t)" and "t \<noteq> []"
    and "jwt_verify env t = Some i" and "findById (guards s) i = Some g"
    and "refreshToken g \<noteq> Some t"
  shows "guard_getAccessToken_try env s (Str t) =
           (Inl (ApiError 403 ''Invalid or expired refresh token''), s) \<and>
         guard_getAccessToken env s req = (Inl (ApiError 401 ''Invalid refresh token''), s)"
  using assms by (auto simp: guard_getAccessToken_def guard_getAccessToken_try_def throw_def)

text \<open>
  Claim C8. When a request to \<^verbatim>\<open>getAccessToken\<close> (user and guard variants) presents a
  refresh token, every exception the handler leaves is \<^verbatim>\<open>ApiError\<close> 401 "Invalid
  refresh token". In particular a token that verifies but is not the one stored on the
  account makes the \<^verbatim>\<open>try\<close> block raise 403 "Invalid or expired refresh token", and the
  handler's outcome is the 401 of its \<^verbatim>\<open>catch\<close>, with the database as it was.
\<close>

theorem getAccessToken_failures_are_401:
  "((truthy (cookies_refreshToken ureq) \<and> v = cookies_refreshToken ureq \<or>
     \<not> truthy (cookies_refreshToken ureq) \<and> req_body ureq = Some b \<and>
     v = body_refreshToken b \<and> truthy v) \<longrightarrow>
      (fst (user_getAccessToken env s ureq) = Inl e \<longrightarrow>
         e = ApiError 401 ''Invalid refresh token'') \<and>
      (v = Str t \<and> jwt_verify env t = Some i \<and> findById (users s) i = Some u \<and>
       refreshToken u \<noteq> Some t \<longrightarrow>
         user_getAccessToken_try env s v =
           (Inl (ApiError 403 ''Invalid or expired refresh token''), s) \<and>
         user_getAccessToken env s ureq = (Inl (ApiError 401 ''Invalid refresh token''), s))) \<and>
   ((truthy (cookies_refreshToken greq) \<and> v' = cookies_refreshToken greq \<or>
     \<not> truthy (cookies_refreshToken greq) \<and> req_body greq = Some b' \<and>
     v' = body_refreshToken b' \<and> truthy v') \<longrightarrow>
      (fst (guard_getAccessToken env s greq) = Inl e' \<longrightarrow>
         e' = ApiError 401 ''Invalid refresh token'') \<and>
      (v' = Str t' \<and> jwt_verify env t' = Some j \<and> findById (guards s) j = Some g \<and>
       refreshToken g \<noteq> Some t' \<longrightarrow>
         guard_getAccessToken_try env s v' =
           (Inl (ApiError 403 ''Invalid or expired refresh token''), s) \<and>
         guard_getAccessToken env s greq = (Inl (ApiError 401 ''Invalid refresh token''), s)))"
proof -
  have u: "incomingRefreshToken ureq = Inr v \<and> truthy v"
    if "truthy (cookies_refreshToken ureq) \<and> v = cookies_refreshToken ureq \<or>
        \<not> truthy (cookies_refreshToken ureq) \<and> req_body ureq = Some b \<and>
        v = body_refreshToken b \<and> truthy v"
    using that by (auto simp: incomingRefreshToken_def)
  have g: "incomingRefreshToken greq = Inr v' \<and> truthy v'"
    if "truthy (cookies_refreshToken greq) \<and> v' = cookies_refreshToken greq \<or>
        \<not> truthy (cookies_refreshToken greq) \<and> req_body greq = Some b' \<and>
        v' = body_refreshToken b' \<and> truthy v'"
    using that by (auto simp: incomingRefreshToken_def)
  show ?thesis
    using u g user_getAccessToken_failure[of ureq v env s e]
      guard_getAccessToken_failure[of greq v' env s e']
      user_getAccessToken_mismatch[of ureq t env i s u]
      guard_getAccessToken_mismatch[of greq t' env j s g]
    by auto
qed

theorem getAccessToken_failures_are_401_witness:
  "cookies_refreshToken (empty_request\<lparr>cookies_refreshToken := Str ''stale-alice''\<rparr>
      :: user request) = Str ''stale-alice'' \<and>
   jwt_verify example_env ''stale-alice'' = Some 1 \<and>
   findById (users example_state) 1 = Some alice \<and>
   refreshToken alice \<noteq> Some ''stale-alice'' \<and>
   user_getAccessToken_try example_env example_state (Str ''stale-alice'') =
     (Inl (ApiError 403 ''Invalid or expired refresh token''), example_state) \<and>
   user_getAccessToken example_env example_state
     (empty_request\<lparr>cookies_refreshToken := Str ''stale-alice''\<rparr>) =
     (Inl (ApiError 401 ''Invalid refresh token''), example_state) \<and>
   guard_getAccessToken_try example_env example_state (Str ''stale-bob'') =
     (Inl (ApiError 403 ''Invalid or expired refresh token''), example_state) \<and>
   guard_getAccessToken example_env example_state
     (empty_request\<lparr>req_body := Some (empty_body\<lparr>body_refreshToken := Str ''stale-bob''\<rparr>)\<rparr>) =
     (Inl (ApiError 401 ''Invalid refresh token''), example_state)"
  using getAccessToken_failures_are_401
    [where env = example_env and s = example_state
       and ureq = "empty_request\<lparr>cookies_refreshToken := Str ''stale-alice''\<rparr>"
       and v = "Str ''stale-alice''" and t = "''stale-alice''" and i = 1 and u = alice
       and e = "ApiError 401 ''Invalid refresh token''"
       and greq = "empty_request\<lparr>req_body := Some (empty_body\<lparr>body_refreshToken :=
                     Str ''stale-bob''\<rparr>)\<rparr>"
       and b' = "empty_body\<lparr>body_refreshToken := Str ''stale-bob''\<rparr>"
       and v' = "Str ''stale-bob''" and t' = "''stale-bob''" and j = 7 and g = bob
       and e' = "ApiError 401 ''Invalid refresh token''"]
  by (simp add: example_env_def example_state_def empty_request_def empty_body_def alice_def
        bob_def findById_def)

section \<open>Registration\<close>

lemma findByNameOrEmail_member:
  assumes "d \<in> set docs" and "userName d = n \<or> email d = m"
  shows "\<exists>y. findByNameOrEmail env (Str n) (Str m) docs = Inr (Some y)"
proof (cases "find (\<lambda>x. userName x = n \<or> email x = m) docs")
  case None
  then show ?thesis using assms by (auto simp: find_None_iff)
next
  case (Some y)
  then show ?thesis by (simp add: findByNameOrEmail_def)
qed

lemma registerUser_conflict:
  assumes "req_body req = Some b"
    and "body_userName b = Str n" "n \<noteq> []" "body_email b = Str m" "m \<noteq> []"
    and "truthy (body_fullName b)" "truthy (body_password b)"
    and "u \<in> set (users s)" and "userName u = n \<or> email u = m"
  shows "registerUser env s req = (Inl (ApiError 409 ''User already exists''), s)"
proof -
  obtain y where "findByNameOrEmail env (Str n) (Str m) (users s) = Inr (Some y)"
    using findByNameOrEmail_member[OF assms(8,9)] by blast
  then show ?thesis
    using assms(1-7) by (simp add: registerUser_def throw_def)
qed

lemma registerGuard_conflict:
  assumes "req_body req = Some b"
    and "body_userName b = Str n" "n \<noteq> []" "body_email b = Str m" "m \<noteq> []"
    and "truthy (body_fullName b)" "truthy (body_password b)"
    and "truthy (body_residence b)" "truthy (body_description b)" "truthy (body_age b)"
    and "g \<in> set (guards s)" and "userName g = n \<or> email g = m"
  shows "registerGuard env s req = (Inl (ApiError 409 ''Guard already exists''), s)"
proof -
  obtain y where "findByNameOrEmail env (Str n) (Str m) (guards s) = Inr (Some y)"
    using findByNameOrEmail_member[OF assms(11,12)] by blast
  then show ?thesis
    using assms(1-10) by (simp add: registerGuard_def throw_def)
qed

lemma createUser_userName:
  "createUser env s b url = Inr u \<Longrightarrow> body_userName b = Str k \<Longrightarrow>
   userName u = toLowerCase env k"
  by (auto simp: createUser_def split: option.splits)

lemma createGuard_userName:
  "createGuard env s b url w = Inr g \<Longrightarrow> body_userName b = Str k \<Longrightarrow>
   userName g = toLowerCase env k"
  by (auto simp: createGuard_def split: option.splits)

lemma registerUser_stores_lowercase:
  "fst (registerUser env s req) = Inr res \<Longrightarrow> req_body req = Some b \<Longrightarrow>
   body_userName b = Str k \<Longrightarrow>
   map userName (users (snd (registerUser env s req))) =
     map userName (users s) @ [toLowerCase env k]"
  by (auto simp: registerUser_def throw_def Let_def createUser_userName
        split: if_splits option.splits sum.splits)

lemma registerGuard_stores_lowercase:
  "fst (registerGuard env s req) = Inr res \<Longrightarrow> req_body req = Some b \<Longrightarrow>
   body_userName b = Str k \<Longrightarrow>
   map userName (guards (snd (registerGuard env s req))) =
     map userName (guards s) @ [toLowerCase env k]"
  by (auto simp: registerGuard_def throw_def Let_def createGuard_userName
        split: if_splits option.splits sum.splits)

text \<open>
  Claim C2, as amended. A registration request (\<^verbatim>\<open>registerUser\<close>, \<^verbatim>\<open>registerGuard\<close>)
  that carries every required field, with a user name and an email that are non-empty
  strings, and whose user name as given or whose email equals that of a stored account,
  fails with \<^verbatim>\<open>ApiError\<close> 409 and leaves the database as it was. A registration that
  succeeds stores \<^verbatim>\<open>userName.toLowerCase()\<close> as the user name.
\<close>

theorem register_rejects_duplicate:
  "(req_body ureq = Some b \<and> body_userName b = Str n \<and> n \<noteq> [] \<and>
    body_email b = Str m \<and> m \<noteq> [] \<and> truthy (body_fullName b) \<and>
    truthy (body_password b) \<and> u \<in> set (users s) \<and> (userName u = n \<or> email u = m) \<longrightarrow>
      registerUser env s ureq = (Inl (ApiError 409 ''User already exists''), s)) \<and>
   (req_body greq = Some b' \<and> body_userName b' = Str n' \<and> n' \<noteq> [] \<and>
    body_email b' = Str m' \<and> m' \<noteq> [] \<and> truthy (body_fullName b') \<and>
    truthy (body_password b') \<and> truthy (body_residence b') \<and>
    truthy (body_description b') \<and> truthy (body_age b') \<and> g \<in> set (guards s) \<and>
    (userName g = n' \<or> email g = m') \<longrightarrow>
      registerGuard env s greq = (Inl (ApiError 409 ''Guard already exists''), s)) \<and>
   (fst (registerUser env s ureq') = Inr ures \<and> req_body ureq' = Some c \<and>
    body_userName c = Str k \<longrightarrow>
      map userName (users (snd (registerUser env s ureq'))) =
        map userName (users s) @ [toLowerCase env k]) \<and>
   (fst (registerGuard env s greq') = Inr gres \<and> req_body greq' = Some c' \<and>
    body_userName c' = Str k' \<longrightarrow>
      map userName (guards (snd (registerGuard env s greq'))) =
        map userName (guards s) @ [toLowerCase env k'])"
  using registerUser_conflict[of ureq b n m u s env]
    registerGuard_conflict[of greq b' n' m' g s env]
    registerUser_stores_lowercase[of env s ureq' ures c k]
    registerGuard_stores_lowercase[of env s greq' gres c' k']
  by blast

text \<open>
  The claim as first stated does not hold of a request that repeats a stored user name and
  email and leaves a required field out: the presence check comes first and answers 400.
\<close>

theorem register_duplicate_counterexample:
  "alice \<in> set (users example_state) \<and>
   body_userName (empty_body\<lparr>body_userName := Str ''alice'',
       body_email := Str ''alice@example.com''\<rparr>) = Str (userName alice) \<and>
   body_email (empty_body\<lparr>body_userName := Str ''alice'',
       body_email := Str ''alice@example.com''\<rparr>) = Str (email alice) \<and>
   registerUser example_env example_state
     (empty_request\<lparr>req_body := Some (empty_body\<lparr>body_userName := Str ''alice'',
        body_email := Str ''alice@example.com''\<rparr>)\<rparr>) =
   (Inl (ApiError 400 ''All fields are required''), example_state)"
  by (simp add: registerUser_def throw_def example_state_def empty_request_def empty_body_def
        alice_def)

lemma toLowerCase_Carol: "ascii_toLowerCase ''Carol'' = ''carol''"
  by code_simp

lemma toLowerCase_Dave: "ascii_toLowerCase ''Dave'' = ''dave''"
  by code_simp

theorem register_rejects_duplicate_witness:
  "registerUser example_env example_state
     (empty_request\<lparr>req_body := Some (carol_body\<lparr>body_email := Str ''alice@example.com''\<rparr>),
        files_avatar_path := Some ''c.png''\<rparr>) =
     (Inl (ApiError 409 ''User already exists''), example_state) \<and>
   registerGuard example_env example_state
     (empty_request\<lparr>req_body := Some (dave_body\<lparr>body_userName := Str ''bob''\<rparr>),
        files_avatar_path := Some ''d.png''\<rparr>) =
     (Inl (ApiError 409 ''Guard already exists''), example_state) \<and>
   map userName (users (snd (registerUser example_env example_state
       (empty_request\<lparr>req_body := Some carol_body, files_avatar_path := Some ''c.png''\<rparr>)))) =
     [''alice'', ''carol''] \<and>
   map userName (guards (snd (registerGuard example_env example_state
       (empty_request\<lparr>req_body := Some dave_body, files_avatar_path := Some ''d.png''\<rparr>)))) =
     [''bob'', ''dave'']"
proof -
  let ?ureq = "empty_request\<lparr>req_body := Some carol_body, files_avatar_path := Some ''c.png''\<rparr>
               :: user request"
  let ?greq = "empty_request\<lparr>req_body := Some dave_body, files_avatar_path := Some ''d.png''\<rparr>
               :: guard request"
  let ?ures = "\<lparr>status = 201,
      json = ApiResponse 201
        (UserDoc \<lparr>doc_id = 100, userName = ''carol'', fullName = ''Carol C'',
           email = ''carol@example.com'', password = None, avatar = ''https://cdn/c.png'',
           refreshToken = None, role = ''user''\<rparr>) ''User registered successfully'',
      cookies = [], cleared = []\<rparr>"
  let ?gres = "\<lparr>status = 201,
      json = ApiResponse 201
        (GuardDoc \<lparr>doc_id = 100, userName = ''dave'', fullName = ''Dave D'',
           email = ''dave@example.com'', password = None, avatar = ''https://cdn/d.png'',
           refreshToken = None, residence = ''Bokaro'', description = ''day shift'',
           age = ''35'', workHistory = [], isApproved = False, workPercent = Some 0\<rparr>)
        ''Guard registered successfully'',
      cookies = [], cleared = []\<rparr>"
  have u: "fst (registerUser example_env example_state ?ureq) = Inr ?ures"
    by (simp add: registerUser_def createUser_def carol_body_def example_env_def
          example_state_def empty_request_def empty_body_def alice_def present_def
          findByNameOrEmail_def findById_def select_minus_def toLowerCase_Carol)
  have g: "fst (registerGuard example_env example_state ?greq) = Inr ?gres"
    by (simp add: registerGuard_def createGuard_def dave_body_def example_env_def
          example_state_def empty_request_def empty_body_def bob_def present_def
          findByNameOrEmail_def findById_def select_minus_def toLowerCase_Dave
          parseWorkHistory_try_def)
  show ?thesis
    using u g
      register_rejects_duplicate
        [where env = example_env and s = example_state
           and ureq = "empty_request\<lparr>req_body :=
                         Some (carol_body\<lparr>body_email := Str ''alice@example.com''\<rparr>),
                         files_avatar_path := Some ''c.png''\<rparr>"
           and b = "carol_body\<lparr>body_email := Str ''alice@example.com''\<rparr>"
           and n = "''Carol''" and m = "''alice@example.com''" and u = alice
           and greq = "empty_request\<lparr>req_body := Some (dave_body\<lparr>body_userName := Str ''bob''\<rparr>),
                         files_avatar_path := Some ''d.png''\<rparr>"
           and b' = "dave_body\<lparr>body_userName := Str ''bob''\<rparr>"
           and n' = "''bob''" and m' = "''dave@example.com''" and g = bob
           and ureq' = ?ureq and ures = ?ures and c = carol_body and k = "''Carol''"
           and greq' = ?greq and gres = ?gres and c' = dave_body and k' = "''Dave''"]
    by (simp add: carol_body_def dave_body_def example_state_def example_env_def
          empty_request_def empty_body_def alice_def bob_def toLowerCase_Carol
          toLowerCase_Dave)
qed

section \<open>Complaints and approval\<close>

text \<open>
  Claim C5, as amended. \<^verbatim>\<open>authoriseGuard\<close>, called with feedback text and the id of an
  existing guard, sets the guard's stored \<^verbatim>\<open>isApproved\<close> to false, whatever it was, and
  answers 200 with the guard document so changed: an approved guard becomes unapproved
  and an unapproved guard stays unapproved.
\<close>

theorem authoriseGuard_clears_approval:
  "req_body req = Some b \<and> body_complain b = Str c \<and> c \<noteq> [] \<and>
   present (params_guardId req) = Some p \<and>
   castObjectId env p = Some i \<and> findById (guards s) i = Some g \<longrightarrow>
     fst (authoriseGuard env s req) =
       Inr \<lparr>status = 200,
            json = ApiResponse 200 (GuardDoc (g\<lparr>isApproved := False\<rparr>))
                     ''Guard authorisation requested successfully'',
            cookies = [], cleared = []\<rparr> \<and>
     guards (snd (authoriseGuard env s req)) =
       updateById (\<lambda>d. d\<lparr>isApproved := False\<rparr>) i (guards s) \<and>
     findById (guards (snd (authoriseGuard env s req))) i = Some (g\<lparr>isApproved := False\<rparr>)"
proof (intro impI)
  assume a: "req_body req = Some b \<and> body_complain b = Str c \<and> c \<noteq> [] \<and>
   present (params_guardId req) = Some p \<and>
   castObjectId env p = Some i \<and> findById (guards s) i = Some g"
  then have gi: "doc_id g = i" using findById_doc_id[of "guards s" i g] by blast
  have run: "authoriseGuard env s req =
      respond 200 (GuardDoc (g\<lparr>isApproved := False\<rparr>))
        ''Guard authorisation requested successfully''
        (s\<lparr>guards := updateById (\<lambda>d. d\<lparr>isApproved := False\<rparr>) i (guards s),
           complains := complains s @
             [\<lparr>complain_id = idCounter s, complain_text = c, complain_guard = i\<rparr>],
           idCounter := Suc (idCounter s)\<rparr>)"
    using a gi by (simp add: authoriseGuard_def Let_def)
  show "fst (authoriseGuard env s req) =
       Inr \<lparr>status = 200,
            json = ApiResponse 200 (GuardDoc (g\<lparr>isApproved := False\<rparr>))
                     ''Guard authorisation requested successfully'',
            cookies = [], cleared = []\<rparr> \<and>
     guards (snd (authoriseGuard env s req)) =
       updateById (\<lambda>d. d\<lparr>isApproved := False\<rparr>) i (guards s) \<and>
     findById (guards (snd (authoriseGuard env s req))) i = Some (g\<lparr>isApproved := False\<rparr>)"
    using a by (simp add: run respond_def findById_updateById)
qed

theorem authoriseGuard_clears_approval_witness:
  "findById (guards (example_state\<lparr>guards := [bob\<lparr>isApproved := True\<rparr>]\<rparr>)) 7 =
     Some (bob\<lparr>isApproved := True\<rparr>) \<and>
   findById (guards (snd (authoriseGuard example_env
       (example_state\<lparr>guards := [bob\<lparr>isApproved := True\<rparr>]\<rparr>) complaint_request))) 7 =
     Some (bob\<lparr>isApproved := False\<rparr>)"
  using authoriseGuard_clears_approval
    [where env = example_env and s = "example_state\<lparr>guards := [bob\<lparr>isApproved := True\<rparr>]\<rparr>"
       and req = complaint_request and b = "empty_body\<lparr>body_complain := Str ''asleep on duty''\<rparr>"
       and c = "''asleep on duty''" and p = "''7''" and i = 7 and g = "bob\<lparr>isApproved := True\<rparr>"]
  by (simp add: example_env_def example_state_def complaint_request_def empty_request_def
        empty_body_def bob_def present_def findById_def)

text \<open>
  The claim as first stated, that the call flips the flag, does not hold of a guard who is
  not approved: the flag is false before the call and false after it.
\<close>

theorem authoriseGuard_toggle_counterexample:
  "map_option isApproved (findById (guards example_state) 7) = Some False \<and>
   fst (authoriseGuard example_env example_state complaint_request) =
     Inr \<lparr>status = 200,
          json = ApiResponse 200 (GuardDoc bob) ''Guard authorisation requested successfully'',
          cookies = [], cleared = []\<rparr> \<and>
   map_option isApproved
     (findById (guards (snd (authoriseGuard example_env example_state complaint_request))) 7) =
     Some False"
  by (simp add: authoriseGuard_def respond_def example_env_def example_state_def
        complaint_request_def empty_request_def empty_body_def bob_def present_def
        findById_def Let_def)

section \<open>Work percent\<close>

text \<open>
  For a call that carries the authenticated guard and a body whose \<^verbatim>\<open>workPercent\<close> is a
  number or is absent, the handler throws \<^verbatim>\<open>ApiError\<close> 400 exactly when the value is
  absent, below 0 or above 100, and a number from 0 to 100 is stored on the guard's
  document and returned without the password and the refresh token.
\<close>

lemma updateWorkPercent_numbers:
  assumes "req_user req = Some me" and "req_body req = Some b"
    and "isNumberOrAbsent (body_workPercent b)"
  shows "(thrownStatus (updateWorkPercent env s req) = Some 400) =
           (case body_workPercent b of Num v \<Rightarrow> v < 0 \<or> 100 < v | _ \<Rightarrow> True)"
    and "body_workPercent b = Num w \<Longrightarrow> 0 \<le> w \<Longrightarrow> w \<le> 100 \<Longrightarrow>
         findById (guards s) (doc_id me) = Some g \<Longrightarrow>
         updateWorkPercent env s req =
           (Inr \<lparr>status = 200,
                 json = ApiResponse 200 (GuardDoc (select_minus (g\<lparr>workPercent := Some w\<rparr>)))
                          ''Work percent updated successfully'',
                 cookies = [], cleared = []\<rparr>,
            s\<lparr>guards := updateById (\<lambda>d. d\<lparr>workPercent := Some w\<rparr>) (doc_id me) (guards s)\<rparr>)"
proof -
  show "(thrownStatus (updateWorkPercent env s req) = Some 400) =
           (case body_workPercent b of Num v \<Rightarrow> v < 0 \<or> 100 < v | _ \<Rightarrow> True)"
    using assms
    by (cases "body_workPercent b")
       (auto simp: updateWorkPercent_def thrownStatus_def throw_def raise_def respond_def
          Let_def split: option.splits)
next
  assume w: "body_workPercent b = Num w" "0 \<le> w" "w \<le> 100"
    and g: "findById (guards s) (doc_id me) = Some g"
  have "findById (updateById (\<lambda>d. d\<lparr>workPercent := Some w\<rparr>) (doc_id me) (guards s)) (doc_id me) =
      Some (g\<lparr>workPercent := Some w\<rparr>)"
    using g by (simp add: findById_updateById)
  then show "updateWorkPercent env s req =
           (Inr \<lparr>status = 200,
                 json = ApiResponse 200 (GuardDoc (select_minus (g\<lparr>workPercent := Some w\<rparr>)))
                          ''Work percent updated successfully'',
                 cookies = [], cleared = []\<rparr>,
            s\<lparr>guards := updateById (\<lambda>d. d\<lparr>workPercent := Some w\<rparr>) (doc_id me) (guards s)\<rparr>)"
    using assms w by (simp add: updateWorkPercent_def respond_def Let_def)
qed

text \<open>
  \<^verbatim>\<open>null\<close> is not absent and converts to 0, so it passes the test, and the update stores
  it: whatever the environment, the guard's \<^verbatim>\<open>workPercent\<close> becomes \<^verbatim>\<open>null\<close> and the
  answer is 200.
\<close>

lemma updateWorkPercent_null:
  assumes "req_user req = Some me" and "req_body req = Some b"
    and "body_workPercent b = Null" and "findById (guards s) (doc_id me) = Some g"
  shows "updateWorkPercent env s req =
           (Inr \<lparr>status = 200,
                 json = ApiResponse 200 (GuardDoc (select_minus (g\<lparr>workPercent := None\<rparr>)))
                          ''Work percent updated successfully'',
                 cookies = [], cleared = []\<rparr>,
            s\<lparr>guards := updateById (\<lambda>d. d\<lparr>workPercent := None\<rparr>) (doc_id me) (guards s)\<rparr>)"
proof -
  have "findById (updateById (\<lambda>d. d\<lparr>workPercent := None\<rparr>) (doc_id me) (guards s)) (doc_id me) =
      Some (g\<lparr>workPercent := None\<rparr>)"
    using assms(4) by (simp add: findById_updateById)
  then show ?thesis
    using assms by (simp add: updateWorkPercent_def respond_def Let_def)
qed

text \<open>
  Claim C4, at the failing input. The authenticated guard sends the body
  \<^verbatim>\<open>{"workPercent": null}\<close>. The claim has a value that is not within 0 to 100 rejected
  with status 400; the handler answers 200 and stores \<^verbatim>\<open>null\<close> as the guard's work
  percent.
\<close>

theorem updateWorkPercent_accepts_null:
  "updateWorkPercent example_env example_state
     (empty_request\<lparr>req_user := Some bob,
        req_body := Some (empty_body\<lparr>body_workPercent := Null\<rparr>)\<rparr>) =
     (Inr \<lparr>status = 200,
           json = ApiResponse 200
                    (GuardDoc (bob\<lparr>password := None, refreshToken := None, workPercent := None\<rparr>))
                    ''Work percent updated successfully'',
           cookies = [], cleared = []\<rparr>,
      example_state\<lparr>guards := [bob\<lparr>workPercent := None\<rparr>]\<rparr>) \<and>
   thrownStatus (updateWorkPercent example_env example_state
     (empty_request\<lparr>req_user := Some bob,
        req_body := Some (empty_body\<lparr>body_workPercent := Null\<rparr>)\<rparr>)) \<noteq> Some 400"
  by (simp add: updateWorkPercent_def respond_def thrownStatus_def example_state_def
        empty_request_def empty_body_def bob_def findById_def select_minus_def Let_def)

text \<open>
  A string that is not a numeral converts to \<^verbatim>\<open>NaN\<close>, whose comparisons are false: it
  passes the test too, and the outcome is the CastError of the update, not a 400.
\<close>

lemma updateWorkPercent_not_a_number:
  assumes "req_user req = Some me" and "req_body req = Some b"
    and "body_workPercent b = Str a" and "StringToNumber env a = NaN"
    and "schemaCastNumber env (Str a) = None"
  shows "updateWorkPercent env s req = (Inl (JsError ''CastError''), s)"
  using assms by (simp add: updateWorkPercent_def raise_def)

section \<open>The refresh token check\<close>

text \<open>
  With \<^verbatim>\<open>req.body\<close> defined, \<^verbatim>\<open>checkRefreshToken\<close> (user and guard variants) responds:
  the status is 200 when the cookies or the body carry a truthy refresh token and 401
  otherwise, the body is the bare status, no cookie is set, nothing of the environment is
  consulted, and the database is as it was.
\<close>

lemma checkRefreshToken_with_body:
  "req_body ureq = Some b \<Longrightarrow>
   user_checkRefreshToken env s ureq =
     (Inr \<lparr>status = (if truthy (cookies_refreshToken ureq) \<or> truthy (body_refreshToken b)
                     then 200 else 401),
           json = StatusJson (if truthy (cookies_refreshToken ureq) \<or>
                                 truthy (body_refreshToken b) then 200 else 401),
           cookies = [], cleared = []\<rparr>, s)"
  "req_body greq = Some b' \<Longrightarrow>
   guard_checkRefreshToken env s greq =
     (Inr \<lparr>status = (if truthy (cookies_refreshToken greq) \<or> truthy (body_refreshToken b')
                     then 200 else 401),
           json = StatusJson (if truthy (cookies_refreshToken greq) \<or>
                                 truthy (body_refreshToken b') then 200 else 401),
           cookies = [], cleared = []\<rparr>, s)"
  by (simp_all add: user_checkRefreshToken_def guard_checkRefreshToken_def
        incomingRefreshToken_def Let_def)

text \<open>
  Without a refresh token cookie and with \<^verbatim>\<open>req.body\<close> undefined, the read of
  \<^verbatim>\<open>req.body.refreshToken\<close> throws, whatever the environment and the database.
\<close>

lemma checkRefreshToken_without_body:
  "\<not> truthy (cookies_refreshToken ureq) \<Longrightarrow> req_body ureq = None \<Longrightarrow>
   user_checkRefreshToken env s ureq = (Inl (JsError ''TypeError''), s)"
  "\<not> truthy (cookies_refreshToken greq) \<Longrightarrow> req_body greq = None \<Longrightarrow>
   guard_checkRefreshToken env s greq = (Inl (JsError ''TypeError''), s)"
  by (simp_all add: user_checkRefreshToken_def guard_checkRefreshToken_def
        incomingRefreshToken_def)

text \<open>
  Claim C9, at the failing input. A request comes without a refresh token cookie and
  without a body, and the body parser has left \<^verbatim>\<open>req.body\<close> undefined. The claim has
  \<^verbatim>\<open>checkRefreshToken\<close> respond with status 401 and never throw; the handler (user and
  guard variants) throws a TypeError and sends nothing.
\<close>

theorem checkRefreshToken_throws_without_body:
  "cookies_refreshToken (bodiless_request :: user request) = Undefined \<and>
   req_body (bodiless_request :: user request) = None \<and>
   user_checkRefreshToken example_env example_state bodiless_request =
     (Inl (JsError ''TypeError''), example_state) \<and>
   guard_checkRefreshToken example_env example_state bodiless_request =
     (Inl (JsError ''TypeError''), example_state)"
  by (simp add: user_checkRefreshToken_def guard_checkRefreshToken_def
        incomingRefreshToken_def bodiless_request_def empty_request_def)

section \<open>Read and list operations\<close>

lemma select_minus_idem: "select_minus (select_minus d) = select_minus d"
  by (simp add: select_minus_def)

lemma findOne_select_minus:
  "(\<And>d. p (select_minus d) = p d) \<Longrightarrow>
   findOne p (map select_minus ds) = map_option select_minus (findOne p ds)"
  by (induction ds) (auto simp: findOne_def)

lemma filter_select_minus:
  "(\<And>d. p (select_minus d) = p d) \<Longrightarrow>
   map select_minus (filter p (map select_minus ds)) = map select_minus (filter p ds)"
  by (induction ds) (auto simp: select_minus_idem)

lemma unwind_select_minus:
  "map (\<lambda>(l, g). (l, select_minus g))
     (filter (\<lambda>(l, g). isApproved g)
        (map (Pair l) (filter (\<lambda>g. doc_id g = k) (map select_minus gs)))) =
   map (\<lambda>(l, g). (l, select_minus g))
     (filter (\<lambda>(l, g). isApproved g) (map (Pair l) (filter (\<lambda>g. doc_id g = k) gs)))"
  by (induction gs) (auto simp: select_minus_def)

lemma lookup_select_minus:
  "map (\<lambda>(l, g). (l, select_minus g))
     (filter (\<lambda>(l, g). isApproved g)
        (concat (map (\<lambda>l. map (Pair l) (filter (\<lambda>g. doc_id g = loc_guard l)
                                          (map select_minus gs))) ls))) =
   map (\<lambda>(l, g). (l, select_minus g))
     (filter (\<lambda>(l, g). isApproved g)
        (concat (map (\<lambda>l. map (Pair l) (filter (\<lambda>g. doc_id g = loc_guard l) gs)) ls)))"
  by (induction ls) (simp_all add: unwind_select_minus)

lemma getUser_redact: "fst (getUser env (redact s) req) = fst (getUser env s req)"
  by (simp add: getUser_def redact_def findOne_select_minus select_minus_def throw_def
        respond_def split: option.splits)

lemma getGuard_redact: "fst (getGuard env (redact s) req) = fst (getGuard env s req)"
  by (simp add: getGuard_def redact_def findOne_select_minus select_minus_def throw_def
        respond_def split: option.splits)

lemma listAutherisedGuards_redact:
  "fst (listAutherisedGuards env (redact s) req) = fst (listAutherisedGuards env s req)"
  by (simp add: listAutherisedGuards_def redact_def filter_select_minus select_minus_def
        throw_def respond_def Let_def)

lemma listUnassignedGuards_redact:
  "fst (listUnassignedGuards env (redact s) req) = fst (listUnassignedGuards env s req)"
  by (simp add: listUnassignedGuards_def redact_def filter_select_minus select_minus_def
        throw_def respond_def Let_def)

lemma listAuthorisedGuards_redact:
  "fst (listAuthorisedGuards env (redact s) req) = fst (listAuthorisedGuards env s req)"
proof -
  have g: "guards (redact s) = map select_minus (guards s)"
    and l: "locations (redact s) = locations s"
    by (simp_all add: redact_def)
  show ?thesis
    unfolding listAuthorisedGuards_def Let_def
    by (simp only: g l lookup_select_minus) (simp add: throw_def respond_def)
qed

lemma redact_determines:
  "redact s = redact s' \<Longrightarrow>
   fst (getUser env s ureq) = fst (getUser env s' ureq) \<and>
   fst (getGuard env s greq) = fst (getGuard env s' greq) \<and>
   fst (listAutherisedGuards env s greq) = fst (listAutherisedGuards env s' greq) \<and>
   fst (listUnassignedGuards env s greq) = fst (listUnassignedGuards env s' greq) \<and>
   fst (listAuthorisedGuards env s greq) = fst (listAuthorisedGuards env s' greq)"
  using getUser_redact[of env s ureq] getUser_redact[of env s' ureq]
    getGuard_redact[of env s greq] getGuard_redact[of env s' greq]
    listAutherisedGuards_redact[of env s greq] listAutherisedGuards_redact[of env s' greq]
    listUnassignedGuards_redact[of env s greq] listUnassignedGuards_redact[of env s' greq]
    listAuthorisedGuards_redact[of env s greq] listAuthorisedGuards_redact[of env s' greq]
  by simp

lemma no_secrets_select_minus: "secrets_of (select_minus d) = (None, None)"
  by (simp add: secrets_of_def select_minus_def)

lemma getUser_no_secrets:
  "list_all (\<lambda>x. x = (None, None)) (response_secrets (getUser env s req))"
  by (simp add: getUser_def response_secrets_def throw_def respond_def
        no_secrets_select_minus split: option.splits)

lemma getGuard_no_secrets:
  "list_all (\<lambda>x. x = (None, None)) (response_secrets (getGuard env s req))"
  by (simp add: getGuard_def response_secrets_def throw_def respond_def
        no_secrets_select_minus split: option.splits)

lemma listAutherisedGuards_no_secrets:
  "list_all (\<lambda>x. x = (None, None)) (response_secrets (listAutherisedGuards env s req))"
  by (auto simp: listAutherisedGuards_def response_secrets_def throw_def respond_def Let_def
        no_secrets_select_minus list_all_iff)

lemma listUnassignedGuards_no_secrets:
  "list_all (\<lambda>x. x = (None, None)) (response_secrets (listUnassignedGuards env s req))"
  by (auto simp: listUnassignedGuards_def response_secrets_def throw_def respond_def Let_def
        no_secrets_select_minus list_all_iff)

lemma listAuthorisedGuards_no_secrets:
  "list_all (\<lambda>x. x = (None, None)) (response_secrets (listAuthorisedGuards env s req))"
  by (auto simp: listAuthorisedGuards_def response_secrets_def throw_def respond_def Let_def
        no_secrets_select_minus list_all_iff)

text \<open>
  Claim C10. The responses of \<^verbatim>\<open>getUser\<close>, \<^verbatim>\<open>getGuard\<close>, \<^verbatim>\<open>listAutherisedGuards\<close>,
  \<^verbatim>\<open>listUnassignedGuards\<close> and \<^verbatim>\<open>listAuthorisedGuards\<close> carry no password and no
  refresh token in any document they return, and they are the same for two databases
  that differ only in stored passwords and refresh tokens.
\<close>

theorem read_operations_hide_secrets:
  "list_all (\<lambda>x. x = (None, None)) (response_secrets (getUser env s ureq)) \<and>
   list_all (\<lambda>x. x = (None, None)) (response_secrets (getGuard env s greq)) \<and>
   list_all (\<lambda>x. x = (None, None)) (response_secrets (listAutherisedGuards env s greq)) \<and>
   list_all (\<lambda>x. x = (None, None)) (response_secrets (listUnassignedGuards env s greq)) \<and>
   list_all (\<lambda>x. x = (None, None)) (response_secrets (listAuthorisedGuards env s greq)) \<and>
   (redact s = redact s' \<longrightarrow>
      fst (getUser env s ureq) = fst (getUser env s' ureq) \<and>
      fst (getGuard env s greq) = fst (getGuard env s' greq) \<and>
      fst (listAutherisedGuards env s greq) = fst (listAutherisedGuards env s' greq) \<and>
      fst (listUnassignedGuards env s greq) = fst (listUnassignedGuards env s' greq) \<and>
      fst (listAuthorisedGuards env s greq) = fst (listAuthorisedGuards env s' greq))"
  using getUser_no_secrets[of env s ureq] getGuard_no_secrets[of env s greq]
    listAutherisedGuards_no_secrets[of env s greq]
    listUnassignedGuards_no_secrets[of env s greq]
    listAuthorisedGuards_no_secrets[of env s greq]
    redact_determines[of s s' env ureq greq]
  by blast

theorem read_operations_hide_secrets_witness:
  "redact example_state = redact other_secrets_state \<and>
   example_state \<noteq> other_secrets_state \<and>
   fst (getUser example_env example_state (empty_request\<lparr>params_userName := Some ''alice''\<rparr>)) =
     fst (getUser example_env other_secrets_state
            (empty_request\<lparr>params_userName := Some ''alice''\<rparr>)) \<and>
   fst (getGuard example_env example_state (empty_request\<lparr>params_userName := Some ''bob''\<rparr>)) =
     fst (getGuard example_env other_secrets_state
            (empty_request\<lparr>params_userName := Some ''bob''\<rparr>)) \<and>
   fst (listAuthorisedGuards example_env example_state
          (empty_request\<lparr>params_userName := Some ''bob''\<rparr>)) =
     fst (listAuthorisedGuards example_env other_secrets_state
            (empty_request\<lparr>params_userName := Some ''bob''\<rparr>))"
  using read_operations_hide_secrets
    [where env = example_env and s = example_state and s' = other_secrets_state
       and ureq = "empty_request\<lparr>params_userName := Some ''alice''\<rparr>"
       and greq = "empty_request\<lparr>params_userName := Some ''bob''\<rparr>"]
  by (simp add: redact_def other_secrets_state_def example_state_def alice_def bob_def
        select_minus_def)

text \<open>
  By contrast the login response embeds the document as it was selected, with the
  password hash and the refresh token stored before the rotation.
\<close>

lemma login_response_embeds_secrets:
  "response_secrets (loginUser example_env example_state
       (empty_request\<lparr>req_body := Some (empty_body\<lparr>body_email := Str ''alice@example.com'',
          body_password := Str ''wonderland''\<rparr>)\<rparr>)) =
     [(Some ''hash:wonderland'', Some ''old-alice'')]"
  by (simp add: response_secrets_def loginUser_def user_generateAccessAndRefreshTokens_def
        example_env_def example_state_def empty_request_def empty_body_def alice_def
        findByNameOrEmail_def findById_def example_passwordCheck_def Let_def secrets_of_def)

lemma getUser_example:
  "fst (getUser example_env example_state (empty_request\<lparr>params_userName := Some '' alice ''\<rparr>)) =
     Inr \<lparr>status = 200,
          json = ApiResponse 200 (UserDoc (alice\<lparr>password := None, refreshToken := None\<rparr>))
                   ''User retrieved successfully'',
          cookies = [], cleared = []\<rparr>"
  by (simp add: getUser_def respond_def example_env_def example_state_def empty_request_def
        alice_def present_def findOne_def select_minus_def ascii_trim_def
        ascii_isWhiteSpace_def)

section \<open>How the controllers signal failure\<close>

































text \<open>
  Outside these requests the handlers do throw other errors. A \<^verbatim>\<open>userName\<close> that is an
  array, as a repeated form field gives, passes the presence check of the registration:
  either the duplicate lookup rejects it with a CastError, or the lookup finds nothing and
  \<^verbatim>\<open>userName.toLowerCase()\<close> is a TypeError. A password check that throws leaves the
  login with that error.
\<close>

lemma registerUser_userName_not_a_string:
  assumes "req_body req = Some b"
    and "body_userName b = Arr xs" and "truthy (body_fullName b)"
    and "truthy (body_email b)" and "truthy (body_password b)"
  shows "castForQuery env (Arr xs) = None \<Longrightarrow>
         registerUser env s req = (Inl (JsError ''CastError''), s)"
    and "findByNameOrEmail env (Arr xs) (body_email b) (users s) = Inr None \<Longrightarrow>
         present (files_avatar_path req) = Some a \<Longrightarrow> uploadOnCloudinary env a = Some url \<Longrightarrow>
         registerUser env s req = (Inl (JsError ''TypeError''), s)"
  using assms
  by (simp_all add: registerUser_def findByNameOrEmail_def createUser_def)

lemma registerGuard_userName_not_a_string:
  assumes "req_body req = Some b"
    and "body_userName b = Arr xs" and "truthy (body_fullName b)"
    and "truthy (body_email b)" and "truthy (body_password b)"
    and "truthy (body_residence b)" and "truthy (body_description b)" and "truthy (body_age b)"
    and "\<not> truthy (body_workHistory b)"
  shows "castForQuery env (Arr xs) = None \<Longrightarrow>
         registerGuard env s req = (Inl (JsError ''CastError''), s)"
    and "findByNameOrEmail env (Arr xs) (body_email b) (guards s) = Inr None \<Longrightarrow>
         present (files_avatar_path req) = Some a \<Longrightarrow> uploadOnCloudinary env a = Some url \<Longrightarrow>
         registerGuard env s req = (Inl (JsError ''TypeError''), s)"
  using assms
  by (simp_all add: registerGuard_def findByNameOrEmail_def createGuard_def)

lemma login_password_check_throws:
  assumes "req_body req = Some b" and "truthy (body_email b) \<or> truthy (body_userName b)"
    and "findByNameOrEmail env (body_userName b) (body_email b) (users s) = Inr (Some u)"
    and "user_isPasswordCorrect env u (body_password b) = None"
  shows "loginUser env s req = (Inl (JsError ''Error''), s)"
  using assms by (auto simp: loginUser_def raise_def)




end
